theory Spec2Isabelle
  imports Main
begin

section \<open>The plugin framework's values\<close>

text \<open>
  The provider keeps every attribute as a framework value (\<^verbatim>\<open>types.String\<close>,
  \<^verbatim>\<open>types.Bool\<close>, \<^verbatim>\<open>types.Object\<close>) that is null, unknown or known.
  The Go zero value of each of them is the null value. \<^verbatim>\<open>Equal\<close> compares the state
  first and the content only when both are known, which is the equality of the datatypes below.
\<close>

datatype tf_string = StringNull | StringUnknown | StringValue string

datatype tf_bool = BoolNull | BoolUnknown | BoolValue bool

datatype tf_object = ObjectNull | ObjectUnknown | ObjectValue "(string \<times> tf_string) list"

fun ValueString :: "tf_string \<Rightarrow> string" where
  "ValueString (StringValue s) = s"
| "ValueString StringNull = []"
| "ValueString StringUnknown = []"

fun ValueBool :: "tf_bool \<Rightarrow> bool" where
  "ValueBool (BoolValue b) = b"
| "ValueBool BoolNull = False"
| "ValueBool BoolUnknown = False"

fun IsNull :: "tf_string \<Rightarrow> bool" where
  "IsNull StringNull = True"
| "IsNull StringUnknown = False"
| "IsNull (StringValue s) = False"

text \<open>
  A \<^verbatim>\<open>time.Time\<close> is only ever decoded from a response and written back with
  \<^verbatim>\<open>Format(time.RFC3339)\<close>; it is represented by that rendering.
\<close>

datatype Time = Time string

fun Format_RFC3339 :: "Time \<Rightarrow> string" where
  "Format_RFC3339 (Time s) = s"

section \<open>Diagnostics, requests and responses\<close>

datatype fmt_arg = D int | S string

text \<open>
  \<^verbatim>\<open>resp.Diagnostics.AddError(summary, detail)\<close>; a detail built by
  \<^verbatim>\<open>fmt.Sprintf\<close> keeps its format string and its arguments.
\<close>

datatype diagnostic = AddError string string | AddErrorf string string "fmt_arg list"

fun Summary :: "diagnostic \<Rightarrow> string" where
  "Summary (AddError s d) = s"
| "Summary (AddErrorf s f as) = s"

datatype json = JString string | JBool bool

type_synonym json_object = "(string \<times> json) list"

datatype http_method = MethodGet | MethodPost | MethodPatch | MethodDelete

record http_request =
  Method :: http_method
  URL :: string
  Header :: "(string \<times> string) list"
  Payload :: "json_object option"

text \<open>
  The body of a response is what \<^verbatim>\<open>io.ReadAll\<close> returns: the text, or the error of
  a failed read.
\<close>

record http_response =
  StatusCode :: int
  Body :: "string + string"

text \<open>
  The provider handle shared by every resource and data source; \<^verbatim>\<open>client\<close> is
  \<^verbatim>\<open>client.Do\<close>, which returns a response or a transport error.
\<close>

record InfradotsProvider =
  host :: string
  token :: string
  client :: "http_request \<Rightarrow> string + http_response"

text \<open>
  What an operation leaves behind: the diagnostics it appended, the state of its response
  (\<open>None\<close> is the null state, the record removed) and the requests it handed to the client.
  The state of a response is the framework's until the operation sets it: the null state
  for \<^verbatim>\<open>Create\<close>, \<^verbatim>\<open>ImportState\<close> and a data source, the state of the request
  for \<^verbatim>\<open>Read\<close>, \<^verbatim>\<open>Update\<close> and \<^verbatim>\<open>Delete\<close>. The models of plan and state
  of a resource are taken as read: the model structs of the four resources have one field
  for each attribute of their schemas, so \<^verbatim>\<open>Get\<close> and \<^verbatim>\<open>Set\<close> on them add no
  diagnostic. The filter structs of the data sources do not, and their \<^verbatim>\<open>Get\<close> is
  modelled with the data sources.
\<close>

record 'm response =
  Diagnostics :: "diagnostic list"
  State :: "'m option"
  Sent :: "http_request list"

definition HasError :: "'m response \<Rightarrow> bool" where
  "HasError r = (Diagnostics r \<noteq> [])"

text \<open>The response that the client gave to the one request of an operation, if any.\<close>

definition received :: "InfradotsProvider \<Rightarrow> 'm response \<Rightarrow> http_response option" where
  "received p r =
     (case Sent r of
        [q] \<Rightarrow> (case client p q of Inl e \<Rightarrow> None | Inr httpResp \<Rightarrow> Some httpResp)
      | _ \<Rightarrow> None)"

section \<open>Organization\<close>

record OrganizationResourceModel =
  org_ID :: tf_string
  org_Name :: tf_string
  org_CreatedAt :: tf_string
  org_UpdatedAt :: tf_string
  org_ExecutionMode :: tf_string
  org_AgentsEnabled :: tf_bool

text \<open>
  \<^verbatim>\<open>OrganizationAPIResponse\<close>; members and teams are kept by their one field, the
  subscription and tags maps are never read.
\<close>

record OrganizationAPIResponse =
  orgapi_ID :: string
  orgapi_Name :: string
  orgapi_Members :: "string list"
  orgapi_CreatedAt :: Time
  orgapi_UpdatedAt :: Time
  orgapi_Teams :: "string list"
  orgapi_ExecutionMode :: string
  orgapi_AgentsEnabled :: bool

record OrganizationUpdateRequest =
  orgupd_Name :: string
  orgupd_ExecutionMode :: string
  orgupd_AgentsEnabled :: bool

section \<open>VCS connection\<close>

text \<open>
  The repository holds two revisions of the VCS resource, which differ in the scheme of the
  URL and in two JSON keys; the revision with \<^verbatim>\<open>ImportState\<close> is the one below.
\<close>

record VCSResourceModel =
  vcs_ID :: tf_string
  vcs_OrganizationName :: tf_string
  vcs_Name :: tf_string
  vcs_VcsType :: tf_string
  vcs_URL :: tf_string
  vcs_ClientId :: tf_string
  vcs_ClientSecret :: tf_string
  vcs_Description :: tf_string
  vcs_CreatedAt :: tf_string
  vcs_UpdatedAt :: tf_string

record VCSAPIResponse =
  vcsapi_ID :: string
  vcsapi_Name :: string
  vcsapi_VcsType :: string
  vcsapi_URL :: string
  vcsapi_ClientId :: string
  vcsapi_Description :: string
  vcsapi_CreatedAt :: Time
  vcsapi_UpdatedAt :: Time

record VCSCreateRequest =
  vcsnew_Name :: string
  vcsnew_VcsType :: string
  vcsnew_URL :: string
  vcsnew_ClientId :: string
  vcsnew_ClientSecret :: string
  vcsnew_Description :: string

record VCSUpdateRequest =
  vcsupd_Name :: string
  vcsupd_VcsType :: string
  vcsupd_URL :: string
  vcsupd_ClientId :: string
  vcsupd_ClientSecret :: string
  vcsupd_Description :: string

section \<open>Workspace\<close>

text \<open>
  Of the two revisions of the workspace resource, the one with the embedded VCS object and
  \<^verbatim>\<open>ImportState\<close> is the one below.
\<close>

record WorkspaceResourceModel =
  ws_ID :: tf_string
  ws_OrganizationName :: tf_string
  ws_Name :: tf_string
  ws_Description :: tf_string
  ws_Source :: tf_string
  ws_Branch :: tf_string
  ws_TerraformVersion :: tf_string
  ws_CreatedAt :: tf_string
  ws_UpdatedAt :: tf_string
  ws_VcsId :: tf_string
  ws_VCS :: tf_object

record WorkspaceAPIResponse =
  wsapi_ID :: string
  wsapi_Name :: string
  wsapi_Description :: string
  wsapi_Source :: string
  wsapi_Branch :: string
  wsapi_TerraformVersion :: string
  wsapi_CreatedAt :: Time
  wsapi_UpdatedAt :: Time
  wsapi_VCS :: "VCSAPIResponse option"

record WorkspaceCreateRequest =
  wsnew_Name :: string
  wsnew_Description :: string
  wsnew_Source :: string
  wsnew_Branch :: string
  wsnew_TerraformVersion :: string

record WorkspaceUpdateRequest =
  wsupd_Name :: string
  wsupd_Description :: string
  wsupd_Source :: string
  wsupd_Branch :: string
  wsupd_TerraformVersion :: string

section \<open>Variable\<close>

record VariableResourceModel =
  var_ID :: tf_string
  var_OrganizationName :: tf_string
  var_Key :: tf_string
  var_Value :: tf_string
  var_Description :: tf_string
  var_Category :: tf_string
  var_Sensitive :: tf_bool
  var_HCL :: tf_bool
  var_CreatedAt :: tf_string
  var_UpdatedAt :: tf_string

record VariableAPIResponse =
  varapi_ID :: string
  varapi_Key :: string
  varapi_Value :: string
  varapi_Description :: string
  varapi_Category :: string
  varapi_Sensitive :: bool
  varapi_HCL :: bool
  varapi_CreatedAt :: Time
  varapi_UpdatedAt :: Time

record VariableCreateRequest =
  varnew_Key :: string
  varnew_Value :: string
  varnew_Description :: string
  varnew_Category :: string
  varnew_Sensitive :: bool
  varnew_HCL :: bool

text \<open>The two booleans of the update request are pointers: \<open>None\<close> is \<^verbatim>\<open>nil\<close>.\<close>

record VariableUpdateRequest =
  varupd_Key :: string
  varupd_Value :: string
  varupd_Description :: string
  varupd_Category :: string
  varupd_Sensitive :: "bool option"
  varupd_HCL :: "bool option"

section \<open>Data source models\<close>

record OrganizationDataSourceModel =
  orgds_ID :: tf_string
  orgds_Name :: tf_string
  orgds_CreatedAt :: tf_string
  orgds_UpdatedAt :: tf_string
  orgds_ExecutionMode :: tf_string
  orgds_AgentsEnabled :: tf_bool
  orgds_Members :: "tf_string list option"
  orgds_Teams :: "tf_string list option"

record OrganizationDataSourceFilterModel =
  orgf_ID :: tf_string
  orgf_Name :: tf_string

record WorkspaceDataSourceModel =
  wsds_ID :: tf_string
  wsds_OrganizationName :: tf_string
  wsds_Name :: tf_string
  wsds_Description :: tf_string
  wsds_Source :: tf_string
  wsds_Branch :: tf_string
  wsds_TerraformVersion :: tf_string
  wsds_CreatedAt :: tf_string
  wsds_UpdatedAt :: tf_string
  wsds_VCS :: tf_object

record WorkspaceDataSourceFilterModel =
  wsf_ID :: tf_string
  wsf_OrganizationName :: tf_string
  wsf_Name :: tf_string

record VCSDataSourceModel =
  vcsds_ID :: tf_string
  vcsds_OrganizationName :: tf_string
  vcsds_Name :: tf_string
  vcsds_VcsType :: tf_string
  vcsds_URL :: tf_string
  vcsds_ClientId :: tf_string
  vcsds_Description :: tf_string
  vcsds_CreatedAt :: tf_string
  vcsds_UpdatedAt :: tf_string

record VCSDataSourceFilterModel =
  vcsf_ID :: tf_string
  vcsf_OrganizationName :: tf_string
  vcsf_Name :: tf_string

section \<open>The standard library\<close>

text \<open>
  The functions of Go's standard library whose result the provider branches on are taken
  as they are: \<^verbatim>\<open>http.NewRequest\<close> rejects some URLs, and \<^verbatim>\<open>json.Unmarshal\<close>
  turns a body into a struct or fails. A key that the body omits leaves the zero value of
  its field in the struct (the empty string, \<^verbatim>\<open>false\<close>, \<^verbatim>\<open>nil\<close>).
\<close>

record stdlib =
  url_error :: "string \<Rightarrow> string option"
  Unmarshal_Organization :: "string \<Rightarrow> string + OrganizationAPIResponse"
  Unmarshal_Organizations :: "string \<Rightarrow> string + OrganizationAPIResponse list"
  Unmarshal_Workspace :: "string \<Rightarrow> string + WorkspaceAPIResponse"
  Unmarshal_Workspaces :: "string \<Rightarrow> string + WorkspaceAPIResponse list"
  Unmarshal_VCS :: "string \<Rightarrow> string + VCSAPIResponse"
  Unmarshal_VCSs :: "string \<Rightarrow> string + VCSAPIResponse list"
  Unmarshal_Variable :: "string \<Rightarrow> string + VariableAPIResponse"

definition NewRequest ::
  "stdlib \<Rightarrow> http_method \<Rightarrow> string \<Rightarrow> json_object option \<Rightarrow> string + http_request" where
  "NewRequest lib m url body =
     (case url_error lib url of
        Some err \<Rightarrow> Inl err
      | None \<Rightarrow> Inr \<lparr>Method = m, URL = url, Header = [], Payload = body\<rparr>)"

definition SetHeader :: "string \<Rightarrow> string \<Rightarrow> http_request \<Rightarrow> http_request" where
  "SetHeader k v r = r\<lparr>Header := filter (\<lambda>kv. fst kv \<noteq> k) (Header r) @ [(k, v)]\<rparr>"

text \<open>
  \<^verbatim>\<open>json.Marshal\<close> of a request struct, as the object it writes: the fields in the
  order of the struct, a field tagged \<^verbatim>\<open>omitempty\<close> left out when it holds the zero
  value of its type. It cannot fail on structs of strings and booleans.
\<close>

definition field_string :: "string \<Rightarrow> string \<Rightarrow> json_object" where
  "field_string k v = [(k, JString v)]"

definition omitempty_string :: "string \<Rightarrow> string \<Rightarrow> json_object" where
  "omitempty_string k v = (if v = [] then [] else [(k, JString v)])"

definition omitempty_bool :: "string \<Rightarrow> bool \<Rightarrow> json_object" where
  "omitempty_bool k v = (if v then [(k, JBool v)] else [])"

definition omitempty_bool_ptr :: "string \<Rightarrow> bool option \<Rightarrow> json_object" where
  "omitempty_bool_ptr k v = (case v of None \<Rightarrow> [] | Some b \<Rightarrow> [(k, JBool b)])"

definition failed :: "http_request list \<Rightarrow> 'm option \<Rightarrow> diagnostic \<Rightarrow> 'm response" where
  "failed sent st d = \<lparr>Diagnostics = [d], State = st, Sent = sent\<rparr>"

text \<open>\<^verbatim>\<open>strings.ToLower\<close> on ASCII text; the bytes of other characters are kept.\<close>

definition ToLower_char :: "char \<Rightarrow> char" where
  "ToLower_char c =
     (case map_of (zip ''ABCDEFGHIJKLMNOPQRSTUVWXYZ'' ''abcdefghijklmnopqrstuvwxyz'') c of
        Some l \<Rightarrow> l
      | None \<Rightarrow> c)"

definition ToLower :: "string \<Rightarrow> string" where
  "ToLower s = map ToLower_char s"

text \<open>
  \<^verbatim>\<open>strings.Split(s, ":")\<close>, for a separator of one character: the pieces between the
  separators, so one piece more than there are separators; the empty string gives one
  empty piece.
\<close>

fun Split :: "char \<Rightarrow> string \<Rightarrow> string list" where
  "Split sep [] = [[]]"
| "Split sep (c # cs) =
     (if c = sep then [] # Split sep cs
      else (case Split sep cs of
              [] \<Rightarrow> [[c]]
            | part # parts \<Rightarrow> (c # part) # parts))"

section \<open>The organization resource\<close>

definition Marshal_OrganizationUpdateRequest :: "OrganizationUpdateRequest \<Rightarrow> json_object" where
  "Marshal_OrganizationUpdateRequest r =
     omitempty_string ''name'' (orgupd_Name r)
     @ omitempty_string ''execution_mode'' (orgupd_ExecutionMode r)
     @ omitempty_bool ''agents_enabled'' (orgupd_AgentsEnabled r)"

text \<open>
  \<^verbatim>\<open>Create\<close> starts from the null state, posts the plan and, on status 201, stores the
  plan with the fields that it takes from the response. The name stays the plan's, and the
  execution mode of the response is lowered.
\<close>

definition OrganizationResource_Create ::
  "stdlib \<Rightarrow> InfradotsProvider \<Rightarrow> OrganizationResourceModel
     \<Rightarrow> OrganizationResourceModel response" where
  "OrganizationResource_Create lib p data =
     (let createReq = \<lparr>orgupd_Name = ValueString (org_Name data),
                       orgupd_ExecutionMode = ValueString (org_ExecutionMode data),
                       orgupd_AgentsEnabled = ValueBool (org_AgentsEnabled data)\<rparr>;
          reqBody = Marshal_OrganizationUpdateRequest createReq;
          url = ''http://'' @ host p @ ''/api/organizations/''
      in case NewRequest lib MethodPost url (Some reqBody) of
           Inl err \<Rightarrow> failed [] None (AddError ''Error creating request'' err)
         | Inr req0 \<Rightarrow>
             (let reqHttp = SetHeader ''Content-Type'' ''application/json''
                              (SetHeader ''Authorization'' (''Bearer '' @ token p) req0)
              in case client p reqHttp of
                   Inl err \<Rightarrow>
                     failed [reqHttp] None (AddError ''Couldn't create Infradots organization'' err)
                 | Inr httpResp \<Rightarrow>
                     (case Body httpResp of
                        Inl err \<Rightarrow>
                          failed [reqHttp] None (AddError ''Error reading response body'' err)
                      | Inr respBody \<Rightarrow>
                          if StatusCode httpResp \<noteq> 201
                          then failed [reqHttp] None
                                 (AddErrorf ''Non-201 response'' ''Status: %d, Body: %s''
                                    [D (StatusCode httpResp), S respBody])
                          else (case Unmarshal_Organization lib respBody of
                                  Inl err \<Rightarrow>
                                    failed [reqHttp] None (AddError ''Error parsing response'' err)
                                | Inr organization \<Rightarrow>
                                    \<lparr>Diagnostics = [],
                                     State = Some (data
                                       \<lparr>org_ID := StringValue (orgapi_ID organization),
                                        org_CreatedAt := StringValue
                                          (Format_RFC3339 (orgapi_CreatedAt organization)),
                                        org_UpdatedAt := StringValue
                                          (Format_RFC3339 (orgapi_UpdatedAt organization)),
                                        org_ExecutionMode := StringValue
                                          (ToLower (orgapi_ExecutionMode organization)),
                                        org_AgentsEnabled := BoolValue
                                          (orgapi_AgentsEnabled organization)\<rparr>),
                                     Sent = [reqHttp]\<rparr>))))"

text \<open>
  \<^verbatim>\<open>Read\<close> starts from the state it is given. Status 404 removes the record and
  returns; any other status than 200 is an error that leaves the state as it was.
\<close>

definition OrganizationResource_Read ::
  "stdlib \<Rightarrow> InfradotsProvider \<Rightarrow> OrganizationResourceModel
     \<Rightarrow> OrganizationResourceModel response" where
  "OrganizationResource_Read lib p data =
     (let url = ''http://'' @ host p @ ''/api/organizations/'' @ ValueString (org_ID data) @ ''/''
      in case NewRequest lib MethodGet url None of
           Inl err \<Rightarrow> failed [] (Some data) (AddError ''Error creating request'' err)
         | Inr req0 \<Rightarrow>
             (let reqHttp = SetHeader ''Authorization'' (''Bearer '' @ token p) req0
              in case client p reqHttp of
                   Inl err \<Rightarrow> failed [reqHttp] (Some data) (AddError ''HTTP request failed'' err)
                 | Inr httpResp \<Rightarrow>
                     if StatusCode httpResp = 404
                     then \<lparr>Diagnostics = [], State = None, Sent = [reqHttp]\<rparr>
                     else if StatusCode httpResp \<noteq> 200
                     then failed [reqHttp] (Some data)
                            (AddErrorf ''Read failed'' ''Status code: %d'' [D (StatusCode httpResp)])
                     else (case Body httpResp of
                             Inl err \<Rightarrow>
                               failed [reqHttp] (Some data)
                                 (AddError ''Error reading response body'' err)
                           | Inr respBody \<Rightarrow>
                               (case Unmarshal_Organization lib respBody of
                                  Inl err \<Rightarrow>
                                    failed [reqHttp] (Some data)
                                      (AddError ''Error parsing response'' err)
                                | Inr organization \<Rightarrow>
                                    \<lparr>Diagnostics = [],
                                     State = Some (data
                                       \<lparr>org_ID := StringValue (orgapi_ID organization),
                                        org_Name := StringValue (orgapi_Name organization),
                                        org_CreatedAt := StringValue
                                          (Format_RFC3339 (orgapi_CreatedAt organization)),
                                        org_UpdatedAt := StringValue
                                          (Format_RFC3339 (orgapi_UpdatedAt organization)),
                                        org_ExecutionMode := StringValue
                                          (orgapi_ExecutionMode organization),
                                        org_AgentsEnabled := BoolValue
                                          (orgapi_AgentsEnabled organization)\<rparr>),
                                     Sent = [reqHttp]\<rparr>))))"

text \<open>
  The update request of \<^verbatim>\<open>Update\<close>: it starts empty, and a field is assigned the
  plan's value when the plan and the state differ on it.
\<close>

definition OrganizationResource_updateReq ::
  "OrganizationResourceModel \<Rightarrow> OrganizationResourceModel \<Rightarrow> OrganizationUpdateRequest" where
  "OrganizationResource_updateReq state plan =
     \<lparr>orgupd_Name = (if org_Name plan \<noteq> org_Name state
                      then ValueString (org_Name plan) else []),
      orgupd_ExecutionMode = (if org_ExecutionMode plan \<noteq> org_ExecutionMode state
                               then ValueString (org_ExecutionMode plan) else []),
      orgupd_AgentsEnabled = (if org_AgentsEnabled plan \<noteq> org_AgentsEnabled state
                               then ValueBool (org_AgentsEnabled plan) else False)\<rparr>"

definition OrganizationResource_Update ::
  "stdlib \<Rightarrow> InfradotsProvider \<Rightarrow> OrganizationResourceModel \<Rightarrow> OrganizationResourceModel
     \<Rightarrow> OrganizationResourceModel response" where
  "OrganizationResource_Update lib p state plan =
     (let updateReq = OrganizationResource_updateReq state plan;
          reqBody = Marshal_OrganizationUpdateRequest updateReq;
          url = ''http://'' @ host p @ ''/api/organizations/'' @ ValueString (org_ID plan) @ ''/''
      in case NewRequest lib MethodPatch url (Some reqBody) of
           Inl err \<Rightarrow> failed [] (Some state) (AddError ''Error creating request'' err)
         | Inr req0 \<Rightarrow>
             (let reqHttp = SetHeader ''Content-Type'' ''application/json''
                              (SetHeader ''Authorization'' (''Bearer '' @ token p) req0)
              in case client p reqHttp of
                   Inl err \<Rightarrow> failed [reqHttp] (Some state) (AddError ''HTTP request failed'' err)
                 | Inr httpResp \<Rightarrow>
                     (case Body httpResp of
                        Inl err \<Rightarrow>
                          failed [reqHttp] (Some state)
                            (AddError ''Error reading response body'' err)
                      | Inr respBody \<Rightarrow>
                          if StatusCode httpResp \<noteq> 200
                          then failed [reqHttp] (Some state)
                                 (AddErrorf ''Update failed'' ''Status code: %d, Body: %s''
                                    [D (StatusCode httpResp), S respBody])
                          else (case Unmarshal_Organization lib respBody of
                                  Inl err \<Rightarrow>
                                    failed [reqHttp] (Some state)
                                      (AddError ''Error parsing response'' err)
                                | Inr organization \<Rightarrow>
                                    \<lparr>Diagnostics = [],
                                     State = Some (plan
                                       \<lparr>org_ID := StringValue (orgapi_ID organization),
                                        org_Name := StringValue (orgapi_Name organization),
                                        org_CreatedAt := StringValue
                                          (Format_RFC3339 (orgapi_CreatedAt organization)),
                                        org_UpdatedAt := StringValue
                                          (Format_RFC3339 (orgapi_UpdatedAt organization)),
                                        org_ExecutionMode := StringValue
                                          (orgapi_ExecutionMode organization),
                                        org_AgentsEnabled := BoolValue
                                          (orgapi_AgentsEnabled organization)\<rparr>),
                                     Sent = [reqHttp]\<rparr>))))"

text \<open>
  \<^verbatim>\<open>Delete\<close> starts from the state it is given and removes the record on status 204
  or 200; with any other status the state stays.
\<close>

definition OrganizationResource_Delete ::
  "stdlib \<Rightarrow> InfradotsProvider \<Rightarrow> OrganizationResourceModel
     \<Rightarrow> OrganizationResourceModel response" where
  "OrganizationResource_Delete lib p data =
     (let url = ''http://'' @ host p @ ''/api/organizations/'' @ ValueString (org_ID data) @ ''/''
      in case NewRequest lib MethodDelete url None of
           Inl err \<Rightarrow> failed [] (Some data) (AddError ''Error creating request'' err)
         | Inr req0 \<Rightarrow>
             (let reqHttp = SetHeader ''Authorization'' (''Bearer '' @ token p) req0
              in case client p reqHttp of
                   Inl err \<Rightarrow> failed [reqHttp] (Some data) (AddError ''HTTP request failed'' err)
                 | Inr httpResp \<Rightarrow>
                     (case Body httpResp of
                        Inl err \<Rightarrow>
                          failed [reqHttp] (Some data)
                            (AddError ''Error reading response body'' err)
                      | Inr respBody \<Rightarrow>
                          if StatusCode httpResp \<noteq> 204 \<and> StatusCode httpResp \<noteq> 200
                          then failed [reqHttp] (Some data)
                                 (AddErrorf ''Delete failed'' ''Status code: %d, Body: %s''
                                    [D (StatusCode httpResp), S respBody])
                          else \<lparr>Diagnostics = [], State = None, Sent = [reqHttp]\<rparr>)))"

section \<open>The VCS resource\<close>

definition Marshal_VCSCreateRequest :: "VCSCreateRequest \<Rightarrow> json_object" where
  "Marshal_VCSCreateRequest r =
     field_string ''name'' (vcsnew_Name r)
     @ field_string ''vcsType'' (vcsnew_VcsType r)
     @ field_string ''endpoint'' (vcsnew_URL r)
     @ field_string ''clientId'' (vcsnew_ClientId r)
     @ field_string ''clientSecret'' (vcsnew_ClientSecret r)
     @ omitempty_string ''description'' (vcsnew_Description r)"

definition Marshal_VCSUpdateRequest :: "VCSUpdateRequest \<Rightarrow> json_object" where
  "Marshal_VCSUpdateRequest r =
     omitempty_string ''name'' (vcsupd_Name r)
     @ omitempty_string ''vcsType'' (vcsupd_VcsType r)
     @ omitempty_string ''endpoint'' (vcsupd_URL r)
     @ omitempty_string ''clientId'' (vcsupd_ClientId r)
     @ omitempty_string ''clientSecret'' (vcsupd_ClientSecret r)
     @ omitempty_string ''description'' (vcsupd_Description r)"


text \<open>
  The assignments that \<^verbatim>\<open>Create\<close>, \<^verbatim>\<open>Read\<close> and \<^verbatim>\<open>Update\<close> make from a
  decoded response. The organization name and the client secret are not assigned.
\<close>

definition VCS_set_from_response :: "VCSAPIResponse \<Rightarrow> VCSResourceModel \<Rightarrow> VCSResourceModel" where
  "VCS_set_from_response vcs data =
     data\<lparr>vcs_ID := StringValue (vcsapi_ID vcs),
          vcs_Name := StringValue (vcsapi_Name vcs),
          vcs_VcsType := StringValue (vcsapi_VcsType vcs),
          vcs_URL := StringValue (vcsapi_URL vcs),
          vcs_ClientId := StringValue (vcsapi_ClientId vcs),
          vcs_Description := StringValue (vcsapi_Description vcs),
          vcs_CreatedAt := StringValue (Format_RFC3339 (vcsapi_CreatedAt vcs)),
          vcs_UpdatedAt := StringValue (Format_RFC3339 (vcsapi_UpdatedAt vcs))\<rparr>"

definition VCSResource_Create ::
  "stdlib \<Rightarrow> InfradotsProvider \<Rightarrow> VCSResourceModel \<Rightarrow> VCSResourceModel response" where
  "VCSResource_Create lib p data =
     (let createReq = \<lparr>vcsnew_Name = ValueString (vcs_Name data),
                       vcsnew_VcsType = ValueString (vcs_VcsType data),
                       vcsnew_URL = ValueString (vcs_URL data),
                       vcsnew_ClientId = ValueString (vcs_ClientId data),
                       vcsnew_ClientSecret = ValueString (vcs_ClientSecret data),
                       vcsnew_Description = ValueString (vcs_Description data)\<rparr>;
          reqBody = Marshal_VCSCreateRequest createReq;
          url = ''https://'' @ host p @ ''/api/organizations/''
                @ ValueString (vcs_OrganizationName data) @ ''/vcs/''
      in case NewRequest lib MethodPost url (Some reqBody) of
           Inl err \<Rightarrow> failed [] None (AddError ''Error creating request'' err)
         | Inr req0 \<Rightarrow>
             (let reqHttp = SetHeader ''Content-Type'' ''application/json''
                              (SetHeader ''Authorization'' (''Bearer '' @ token p) req0)
              in case client p reqHttp of
                   Inl err \<Rightarrow> failed [reqHttp] None (AddError ''HTTP request failed'' err)
                 | Inr httpResp \<Rightarrow>
                     (case Body httpResp of
                        Inl err \<Rightarrow>
                          failed [reqHttp] None (AddError ''Error reading response body'' err)
                      | Inr respBody \<Rightarrow>
                          if StatusCode httpResp \<noteq> 201
                          then failed [reqHttp] None
                                 (AddErrorf ''Non-201 response'' ''Status: %d, Body: %s''
                                    [D (StatusCode httpResp), S respBody])
                          else (case Unmarshal_VCS lib respBody of
                                  Inl err \<Rightarrow>
                                    failed [reqHttp] None (AddError ''Error parsing response'' err)
                                | Inr vcs \<Rightarrow>
                                    \<lparr>Diagnostics = [],
                                     State = Some (VCS_set_from_response vcs data),
                                     Sent = [reqHttp]\<rparr>))))"

definition VCSResource_Read ::
  "stdlib \<Rightarrow> InfradotsProvider \<Rightarrow> VCSResourceModel \<Rightarrow> VCSResourceModel response" where
  "VCSResource_Read lib p data =
     (let url = ''https://'' @ host p @ ''/api/organizations/''
                @ ValueString (vcs_OrganizationName data) @ ''/vcs/''
                @ ValueString (vcs_ID data) @ ''/''
      in case NewRequest lib MethodGet url None of
           Inl err \<Rightarrow> failed [] (Some data) (AddError ''Error creating request'' err)
         | Inr req0 \<Rightarrow>
             (let reqHttp = SetHeader ''Authorization'' (''Bearer '' @ token p) req0
              in case client p reqHttp of
                   Inl err \<Rightarrow> failed [reqHttp] (Some data) (AddError ''HTTP request failed'' err)
                 | Inr httpResp \<Rightarrow>
                     if StatusCode httpResp = 404
                     then \<lparr>Diagnostics = [], State = None, Sent = [reqHttp]\<rparr>
                     else if StatusCode httpResp \<noteq> 200
                     then failed [reqHttp] (Some data)
                            (AddErrorf ''Read failed'' ''Status code: %d'' [D (StatusCode httpResp)])
                     else (case Body httpResp of
                             Inl err \<Rightarrow>
                               failed [reqHttp] (Some data)
                                 (AddError ''Error reading response body'' err)
                           | Inr respBody \<Rightarrow>
                               (case Unmarshal_VCS lib respBody of
                                  Inl err \<Rightarrow>
                                    failed [reqHttp] (Some data)
                                      (AddError ''Error parsing response'' err)
                                | Inr vcs \<Rightarrow>
                                    \<lparr>Diagnostics = [],
                                     State = Some (VCS_set_from_response vcs data),
                                     Sent = [reqHttp]\<rparr>))))"

definition VCSResource_updateReq :: "VCSResourceModel \<Rightarrow> VCSResourceModel \<Rightarrow> VCSUpdateRequest" where
  "VCSResource_updateReq state plan =
     \<lparr>vcsupd_Name = (if vcs_Name plan \<noteq> vcs_Name state
                      then ValueString (vcs_Name plan) else []),
      vcsupd_VcsType = (if vcs_VcsType plan \<noteq> vcs_VcsType state
                         then ValueString (vcs_VcsType plan) else []),
      vcsupd_URL = (if vcs_URL plan \<noteq> vcs_URL state
                     then ValueString (vcs_URL plan) else []),
      vcsupd_ClientId = (if vcs_ClientId plan \<noteq> vcs_ClientId state
                          then ValueString (vcs_ClientId plan) else []),
      vcsupd_ClientSecret = (if vcs_ClientSecret plan \<noteq> vcs_ClientSecret state
                              then ValueString (vcs_ClientSecret plan) else []),
      vcsupd_Description = (if vcs_Description plan \<noteq> vcs_Description state
                             then ValueString (vcs_Description plan) else [])\<rparr>"

definition VCSResource_Update ::
  "stdlib \<Rightarrow> InfradotsProvider \<Rightarrow> VCSResourceModel \<Rightarrow> VCSResourceModel
     \<Rightarrow> VCSResourceModel response" where
  "VCSResource_Update lib p state plan =
     (let updateReq = VCSResource_updateReq state plan;
          reqBody = Marshal_VCSUpdateRequest updateReq;
          url = ''https://'' @ host p @ ''/api/organizations/''
                @ ValueString (vcs_OrganizationName plan) @ ''/vcs/''
                @ ValueString (vcs_ID plan) @ ''/''
      in case NewRequest lib MethodPatch url (Some reqBody) of
           Inl err \<Rightarrow> failed [] (Some state) (AddError ''Error creating request'' err)
         | Inr req0 \<Rightarrow>
             (let reqHttp = SetHeader ''Content-Type'' ''application/json''
                              (SetHeader ''Authorization'' (''Bearer '' @ token p) req0)
              in case client p reqHttp of
                   Inl err \<Rightarrow> failed [reqHttp] (Some state) (AddError ''HTTP request failed'' err)
                 | Inr httpResp \<Rightarrow>
                     (case Body httpResp of
                        Inl err \<Rightarrow>
                          failed [reqHttp] (Some state)
                            (AddError ''Error reading response body'' err)
                      | Inr respBody \<Rightarrow>
                          if StatusCode httpResp \<noteq> 200
                          then failed [reqHttp] (Some state)
                                 (AddErrorf ''Update failed'' ''Status code: %d, Body: %s''
                                    [D (StatusCode httpResp), S respBody])
                          else (case Unmarshal_VCS lib respBody of
                                  Inl err \<Rightarrow>
                                    failed [reqHttp] (Some state)
                                      (AddError ''Error parsing response'' err)
                                | Inr vcs \<Rightarrow>
                                    \<lparr>Diagnostics = [],
                                     State = Some (VCS_set_from_response vcs plan),
                                     Sent = [reqHttp]\<rparr>))))"

definition VCSResource_Delete ::
  "stdlib \<Rightarrow> InfradotsProvider \<Rightarrow> VCSResourceModel \<Rightarrow> VCSResourceModel response" where
  "VCSResource_Delete lib p data =
     (let url = ''https://'' @ host p @ ''/api/organizations/''
                @ ValueString (vcs_OrganizationName data) @ ''/vcs/''
                @ ValueString (vcs_ID data) @ ''/''
      in case NewRequest lib MethodDelete url None of
           Inl err \<Rightarrow> failed [] (Some data) (AddError ''Error creating request'' err)
         | Inr req0 \<Rightarrow>
             (let reqHttp = SetHeader ''Authorization'' (''Bearer '' @ token p) req0
              in case client p reqHttp of
                   Inl err \<Rightarrow> failed [reqHttp] (Some data) (AddError ''HTTP request failed'' err)
                 | Inr httpResp \<Rightarrow>
                     (case Body httpResp of
                        Inl err \<Rightarrow>
                          failed [reqHttp] (Some data)
                            (AddError ''Error reading response body'' err)
                      | Inr respBody \<Rightarrow>
                          if StatusCode httpResp \<noteq> 204 \<and> StatusCode httpResp \<noteq> 200
                          then failed [reqHttp] (Some data)
                                 (AddErrorf ''Delete failed'' ''Status code: %d, Body: %s''
                                    [D (StatusCode httpResp), S respBody])
                          else \<lparr>Diagnostics = [], State = None, Sent = [reqHttp]\<rparr>)))"

text \<open>
  \<^verbatim>\<open>ImportState\<close> starts from the null state. The key is split at its colons before
  anything else; with two parts the connections of the organization are listed and the
  first one of that name fills a fresh model, whose other fields keep the zero value (null).
  Where the status is not 200 the body is read for the message and a failed read is ignored.
\<close>

definition VCSResource_ImportState ::
  "stdlib \<Rightarrow> InfradotsProvider \<Rightarrow> string \<Rightarrow> VCSResourceModel response" where
  "VCSResource_ImportState lib p ID =
     (case Split (CHR '':'') ID of
        [organizationName, vcsName] \<Rightarrow>
          (let url = ''https://'' @ host p @ ''/api/organizations/'' @ organizationName @ ''/vcs/''
           in case NewRequest lib MethodGet url None of
                Inl err \<Rightarrow> failed [] None (AddError ''Error creating request'' err)
              | Inr req0 \<Rightarrow>
                  (let reqHttp = SetHeader ''Authorization'' (''Bearer '' @ token p) req0
                   in case client p reqHttp of
                        Inl err \<Rightarrow> failed [reqHttp] None (AddError ''HTTP request failed'' err)
                      | Inr httpResp \<Rightarrow>
                          if StatusCode httpResp \<noteq> 200
                          then failed [reqHttp] None
                                 (AddErrorf ''Failed to fetch VCS connections''
                                    ''Status code: %d, Body: %s''
                                    [D (StatusCode httpResp),
                                     S (case Body httpResp of Inl err \<Rightarrow> [] | Inr b \<Rightarrow> b)])
                          else (case Body httpResp of
                                  Inl err \<Rightarrow>
                                    failed [reqHttp] None
                                      (AddError ''Error reading response body'' err)
                                | Inr respBody \<Rightarrow>
                                    (case Unmarshal_VCSs lib respBody of
                                       Inl err \<Rightarrow>
                                         failed [reqHttp] None
                                           (AddError ''Error parsing response'' err)
                                     | Inr vcsList \<Rightarrow>
                                         (case find (\<lambda>v. vcsapi_Name v = vcsName) vcsList of
                                            None \<Rightarrow>
                                              failed [reqHttp] None
                                                (AddErrorf ''VCS connection not found''
                                                   (''No VCS connection with name '%s' found in organization '%s'' @ [CHR 0x27])
                                                   [S vcsName, S organizationName])
                                          | Some vcs \<Rightarrow>
                                              \<lparr>Diagnostics = [],
                                               State = Some
                                                 \<lparr>vcs_ID = StringValue (vcsapi_ID vcs),
                                                  vcs_OrganizationName = StringValue organizationName,
                                                  vcs_Name = StringValue (vcsapi_Name vcs),
                                                  vcs_VcsType = StringValue (vcsapi_VcsType vcs),
                                                  vcs_URL = StringValue (vcsapi_URL vcs),
                                                  vcs_ClientId = StringValue (vcsapi_ClientId vcs),
                                                  vcs_ClientSecret = StringNull,
                                                  vcs_Description = StringValue (vcsapi_Description vcs),
                                                  vcs_CreatedAt = StringValue
                                                    (Format_RFC3339 (vcsapi_CreatedAt vcs)),
                                                  vcs_UpdatedAt = StringValue
                                                    (Format_RFC3339 (vcsapi_UpdatedAt vcs))\<rparr>,
                                               Sent = [reqHttp]\<rparr>)))))
      | _ \<Rightarrow>
          failed [] None
            (AddError ''Invalid import ID format''
               (''Import ID must be in the format 'organization_name:vcs_name'' @ [CHR 0x27])))"

section \<open>The workspace resource\<close>

definition Marshal_WorkspaceCreateRequest :: "WorkspaceCreateRequest \<Rightarrow> json_object" where
  "Marshal_WorkspaceCreateRequest r =
     field_string ''name'' (wsnew_Name r)
     @ omitempty_string ''description'' (wsnew_Description r)
     @ field_string ''source'' (wsnew_Source r)
     @ field_string ''branch'' (wsnew_Branch r)
     @ field_string ''terraform_version'' (wsnew_TerraformVersion r)"

definition Marshal_WorkspaceUpdateRequest :: "WorkspaceUpdateRequest \<Rightarrow> json_object" where
  "Marshal_WorkspaceUpdateRequest r =
     omitempty_string ''name'' (wsupd_Name r)
     @ omitempty_string ''description'' (wsupd_Description r)
     @ omitempty_string ''source'' (wsupd_Source r)
     @ omitempty_string ''branch'' (wsupd_Branch r)
     @ omitempty_string ''terraform_version'' (wsupd_TerraformVersion r)"

definition vcsToObject :: "VCSAPIResponse option \<Rightarrow> tf_object" where
  "vcsToObject vcs =
     (case vcs of
        None \<Rightarrow> ObjectNull
      | Some v \<Rightarrow>
          ObjectValue
            [(''id'', StringValue (vcsapi_ID v)),
             (''name'', StringValue (vcsapi_Name v)),
             (''vcs_type'', StringValue (vcsapi_VcsType v)),
             (''url'', StringValue (vcsapi_URL v)),
             (''description'', StringValue (vcsapi_Description v)),
             (''created_at'', StringValue (Format_RFC3339 (vcsapi_CreatedAt v))),
             (''updated_at'', StringValue (Format_RFC3339 (vcsapi_UpdatedAt v)))])"

text \<open>
  The assignments that \<^verbatim>\<open>Create\<close>, \<^verbatim>\<open>Read\<close> and \<^verbatim>\<open>Update\<close> make from a
  decoded response. The organization name and the VCS id are not assigned.
\<close>

definition Workspace_set_from_response ::
  "WorkspaceAPIResponse \<Rightarrow> WorkspaceResourceModel \<Rightarrow> WorkspaceResourceModel" where
  "Workspace_set_from_response workspace data =
     data\<lparr>ws_ID := StringValue (wsapi_ID workspace),
          ws_Name := StringValue (wsapi_Name workspace),
          ws_Description := StringValue (wsapi_Description workspace),
          ws_Source := StringValue (wsapi_Source workspace),
          ws_Branch := StringValue (wsapi_Branch workspace),
          ws_TerraformVersion := StringValue (wsapi_TerraformVersion workspace),
          ws_CreatedAt := StringValue (Format_RFC3339 (wsapi_CreatedAt workspace)),
          ws_UpdatedAt := StringValue (Format_RFC3339 (wsapi_UpdatedAt workspace)),
          ws_VCS := vcsToObject (wsapi_VCS workspace)\<rparr>"

definition WorkspaceResource_Create ::
  "stdlib \<Rightarrow> InfradotsProvider \<Rightarrow> WorkspaceResourceModel
     \<Rightarrow> WorkspaceResourceModel response" where
  "WorkspaceResource_Create lib p data =
     (let createReq = \<lparr>wsnew_Name = ValueString (ws_Name data),
                       wsnew_Description = ValueString (ws_Description data),
                       wsnew_Source = ValueString (ws_Source data),
                       wsnew_Branch = ValueString (ws_Branch data),
                       wsnew_TerraformVersion = ValueString (ws_TerraformVersion data)\<rparr>;
          reqBody = Marshal_WorkspaceCreateRequest createReq;
          url = ''https://'' @ host p @ ''/api/organizations/''
                @ ValueString (ws_OrganizationName data) @ ''/workspaces/''
      in case NewRequest lib MethodPost url (Some reqBody) of
           Inl err \<Rightarrow> failed [] None (AddError ''Error creating request'' err)
         | Inr req0 \<Rightarrow>
             (let reqHttp = SetHeader ''Content-Type'' ''application/json''
                              (SetHeader ''Authorization'' (''Bearer '' @ token p) req0)
              in case client p reqHttp of
                   Inl err \<Rightarrow> failed [reqHttp] None (AddError ''HTTP request failed'' err)
                 | Inr httpResp \<Rightarrow>
                     (case Body httpResp of
                        Inl err \<Rightarrow>
                          failed [reqHttp] None (AddError ''Error reading response body'' err)
                      | Inr respBody \<Rightarrow>
                          if StatusCode httpResp \<noteq> 201
                          then failed [reqHttp] None
                                 (AddErrorf ''Non-201 response'' ''Status: %d, Body: %s''
                                    [D (StatusCode httpResp), S respBody])
                          else (case Unmarshal_Workspace lib respBody of
                                  Inl err \<Rightarrow>
                                    failed [reqHttp] None (AddError ''Error parsing response'' err)
                                | Inr workspace \<Rightarrow>
                                    \<lparr>Diagnostics = [],
                                     State = Some (Workspace_set_from_response workspace data),
                                     Sent = [reqHttp]\<rparr>))))"

definition WorkspaceResource_Read ::
  "stdlib \<Rightarrow> InfradotsProvider \<Rightarrow> WorkspaceResourceModel
     \<Rightarrow> WorkspaceResourceModel response" where
  "WorkspaceResource_Read lib p data =
     (let url = ''https://'' @ host p @ ''/api/organizations/''
                @ ValueString (ws_OrganizationName data) @ ''/workspaces/''
                @ ValueString (ws_Name data) @ ''/''
      in case NewRequest lib MethodGet url None of
           Inl err \<Rightarrow> failed [] (Some data) (AddError ''Error creating request'' err)
         | Inr req0 \<Rightarrow>
             (let reqHttp = SetHeader ''Authorization'' (''Bearer '' @ token p) req0
              in case client p reqHttp of
                   Inl err \<Rightarrow> failed [reqHttp] (Some data) (AddError ''HTTP request failed'' err)
                 | Inr httpResp \<Rightarrow>
                     if StatusCode httpResp = 404
                     then \<lparr>Diagnostics = [], State = None, Sent = [reqHttp]\<rparr>
                     else if StatusCode httpResp \<noteq> 200
                     then failed [reqHttp] (Some data)
                            (AddErrorf ''Read failed'' ''Status code: %d'' [D (StatusCode httpResp)])
                     else (case Body httpResp of
                             Inl err \<Rightarrow>
                               failed [reqHttp] (Some data)
                                 (AddError ''Error reading response body'' err)
                           | Inr respBody \<Rightarrow>
                               (case Unmarshal_Workspace lib respBody of
                                  Inl err \<Rightarrow>
                                    failed [reqHttp] (Some data)
                                      (AddError ''Error parsing response'' err)
                                | Inr workspace \<Rightarrow>
                                    \<lparr>Diagnostics = [],
                                     State = Some (Workspace_set_from_response workspace data),
                                     Sent = [reqHttp]\<rparr>))))"

definition WorkspaceResource_updateReq ::
  "WorkspaceResourceModel \<Rightarrow> WorkspaceResourceModel \<Rightarrow> WorkspaceUpdateRequest" where
  "WorkspaceResource_updateReq state plan =
     \<lparr>wsupd_Name = (if ws_Name plan \<noteq> ws_Name state
                     then ValueString (ws_Name plan) else []),
      wsupd_Description = (if ws_Description plan \<noteq> ws_Description state
                            then ValueString (ws_Description plan) else []),
      wsupd_Source = (if ws_Source plan \<noteq> ws_Source state
                       then ValueString (ws_Source plan) else []),
      wsupd_Branch = (if ws_Branch plan \<noteq> ws_Branch state
                       then ValueString (ws_Branch plan) else []),
      wsupd_TerraformVersion = (if ws_TerraformVersion plan \<noteq> ws_TerraformVersion state
                                 then ValueString (ws_TerraformVersion plan) else [])\<rparr>"

text \<open>The URL of the update names the workspace by the name in the state, not the plan's.\<close>

definition WorkspaceResource_Update ::
  "stdlib \<Rightarrow> InfradotsProvider \<Rightarrow> WorkspaceResourceModel \<Rightarrow> WorkspaceResourceModel
     \<Rightarrow> WorkspaceResourceModel response" where
  "WorkspaceResource_Update lib p state plan =
     (let updateReq = WorkspaceResource_updateReq state plan;
          reqBody = Marshal_WorkspaceUpdateRequest updateReq;
          url = ''https://'' @ host p @ ''/api/organizations/''
                @ ValueString (ws_OrganizationName plan) @ ''/workspaces/''
                @ ValueString (ws_Name state) @ ''/''
      in case NewRequest lib MethodPatch url (Some reqBody) of
           Inl err \<Rightarrow> failed [] (Some state) (AddError ''Error creating request'' err)
         | Inr req0 \<Rightarrow>
             (let reqHttp = SetHeader ''Content-Type'' ''application/json''
                              (SetHeader ''Authorization'' (''Bearer '' @ token p) req0)
              in case client p reqHttp of
                   Inl err \<Rightarrow> failed [reqHttp] (Some state) (AddError ''HTTP request failed'' err)
                 | Inr httpResp \<Rightarrow>
                     (case Body httpResp of
                        Inl err \<Rightarrow>
                          failed [reqHttp] (Some state)
                            (AddError ''Error reading response body'' err)
                      | Inr respBody \<Rightarrow>
                          if StatusCode httpResp \<noteq> 200
                          then failed [reqHttp] (Some state)
                                 (AddErrorf ''Update failed'' ''Status code: %d, Body: %s''
                                    [D (StatusCode httpResp), S respBody])
                          else (case Unmarshal_Workspace lib respBody of
                                  Inl err \<Rightarrow>
                                    failed [reqHttp] (Some state)
                                      (AddError ''Error parsing response'' err)
                                | Inr workspace \<Rightarrow>
                                    \<lparr>Diagnostics = [],
                                     State = Some (Workspace_set_from_response workspace plan),
                                     Sent = [reqHttp]\<rparr>))))"

definition WorkspaceResource_Delete ::
  "stdlib \<Rightarrow> InfradotsProvider \<Rightarrow> WorkspaceResourceModel
     \<Rightarrow> WorkspaceResourceModel response" where
  "WorkspaceResource_Delete lib p data =
     (let url = ''https://'' @ host p @ ''/api/organizations/''
                @ ValueString (ws_OrganizationName data) @ ''/workspaces/''
                @ ValueString (ws_Name data) @ ''/''
      in case NewRequest lib MethodDelete url None of
           Inl err \<Rightarrow> failed [] (Some data) (AddError ''Error creating request'' err)
         | Inr req0 \<Rightarrow>
             (let reqHttp = SetHeader ''Authorization'' (''Bearer '' @ token p) req0
              in case client p reqHttp of
                   Inl err \<Rightarrow> failed [reqHttp] (Some data) (AddError ''HTTP request failed'' err)
                 | Inr httpResp \<Rightarrow>
                     (case Body httpResp of
                        Inl err \<Rightarrow>
                          failed [reqHttp] (Some data)
                            (AddError ''Error reading response body'' err)
                      | Inr respBody \<Rightarrow>
                          if StatusCode httpResp \<noteq> 204 \<and> StatusCode httpResp \<noteq> 200
                          then failed [reqHttp] (Some data)
                                 (AddErrorf ''Delete failed'' ''Status code: %d, Body: %s''
                                    [D (StatusCode httpResp), S respBody])
                          else \<lparr>Diagnostics = [], State = None, Sent = [reqHttp]\<rparr>)))"

definition WorkspaceResource_ImportState ::
  "stdlib \<Rightarrow> InfradotsProvider \<Rightarrow> string \<Rightarrow> WorkspaceResourceModel response" where
  "WorkspaceResource_ImportState lib p ID =
     (case Split (CHR '':'') ID of
        [organizationName, workspaceName] \<Rightarrow>
          (let url = ''https://'' @ host p @ ''/api/organizations/'' @ organizationName
                     @ ''/workspaces/''
           in case NewRequest lib MethodGet url None of
                Inl err \<Rightarrow> failed [] None (AddError ''Error creating request'' err)
              | Inr req0 \<Rightarrow>
                  (let reqHttp = SetHeader ''Authorization'' (''Bearer '' @ token p) req0
                   in case client p reqHttp of
                        Inl err \<Rightarrow> failed [reqHttp] None (AddError ''HTTP request failed'' err)
                      | Inr httpResp \<Rightarrow>
                          if StatusCode httpResp \<noteq> 200
                          then failed [reqHttp] None
                                 (AddErrorf ''Failed to fetch workspaces''
                                    ''Status code: %d, Body: %s''
                                    [D (StatusCode httpResp),
                                     S (case Body httpResp of Inl err \<Rightarrow> [] | Inr b \<Rightarrow> b)])
                          else (case Body httpResp of
                                  Inl err \<Rightarrow>
                                    failed [reqHttp] None
                                      (AddError ''Error reading response body'' err)
                                | Inr respBody \<Rightarrow>
                                    (case Unmarshal_Workspaces lib respBody of
                                       Inl err \<Rightarrow>
                                         failed [reqHttp] None
                                           (AddError ''Error parsing response'' err)
                                     | Inr workspaces \<Rightarrow>
                                         (case find (\<lambda>w. wsapi_Name w = workspaceName) workspaces of
                                            None \<Rightarrow>
                                              failed [reqHttp] None
                                                (AddErrorf ''Workspace not found''
                                                   (''No workspace with name '%s' found in organization '%s''
                                                    @ [CHR 0x27])
                                                   [S workspaceName, S organizationName])
                                          | Some workspace \<Rightarrow>
                                              \<lparr>Diagnostics = [],
                                               State = Some
                                                 \<lparr>ws_ID = StringValue (wsapi_ID workspace),
                                                  ws_OrganizationName = StringValue organizationName,
                                                  ws_Name = StringValue (wsapi_Name workspace),
                                                  ws_Description = StringValue
                                                    (wsapi_Description workspace),
                                                  ws_Source = StringValue (wsapi_Source workspace),
                                                  ws_Branch = StringValue (wsapi_Branch workspace),
                                                  ws_TerraformVersion = StringValue
                                                    (wsapi_TerraformVersion workspace),
                                                  ws_CreatedAt = StringValue
                                                    (Format_RFC3339 (wsapi_CreatedAt workspace)),
                                                  ws_UpdatedAt = StringValue
                                                    (Format_RFC3339 (wsapi_UpdatedAt workspace)),
                                                  ws_VcsId = StringNull,
                                                  ws_VCS = vcsToObject (wsapi_VCS workspace)\<rparr>,
                                               Sent = [reqHttp]\<rparr>)))))
      | _ \<Rightarrow>
          failed [] None
            (AddError ''Invalid import ID format''
               (''Import ID must be in the format 'organization_name:workspace_name''
                @ [CHR 0x27])))"

section \<open>The variable resource\<close>

definition Marshal_VariableCreateRequest :: "VariableCreateRequest \<Rightarrow> json_object" where
  "Marshal_VariableCreateRequest r =
     field_string ''key'' (varnew_Key r)
     @ field_string ''value'' (varnew_Value r)
     @ omitempty_string ''description'' (varnew_Description r)
     @ omitempty_string ''category'' (varnew_Category r)
     @ omitempty_bool ''sensitive'' (varnew_Sensitive r)
     @ omitempty_bool ''hcl'' (varnew_HCL r)"

definition Marshal_VariableUpdateRequest :: "VariableUpdateRequest \<Rightarrow> json_object" where
  "Marshal_VariableUpdateRequest r =
     omitempty_string ''key'' (varupd_Key r)
     @ omitempty_string ''value'' (varupd_Value r)
     @ omitempty_string ''description'' (varupd_Description r)
     @ omitempty_string ''category'' (varupd_Category r)
     @ omitempty_bool_ptr ''sensitive'' (varupd_Sensitive r)
     @ omitempty_bool_ptr ''hcl'' (varupd_HCL r)"

text \<open>
  The assignments that \<^verbatim>\<open>Create\<close>, \<^verbatim>\<open>Read\<close> and \<^verbatim>\<open>Update\<close> make from a
  decoded response; the value is among them. The organization name is not assigned.
\<close>

definition Variable_set_from_response ::
  "VariableAPIResponse \<Rightarrow> VariableResourceModel \<Rightarrow> VariableResourceModel" where
  "Variable_set_from_response variable data =
     data\<lparr>var_ID := StringValue (varapi_ID variable),
          var_Key := StringValue (varapi_Key variable),
          var_Value := StringValue (varapi_Value variable),
          var_Description := StringValue (varapi_Description variable),
          var_Category := StringValue (varapi_Category variable),
          var_Sensitive := BoolValue (varapi_Sensitive variable),
          var_HCL := BoolValue (varapi_HCL variable),
          var_CreatedAt := StringValue (Format_RFC3339 (varapi_CreatedAt variable)),
          var_UpdatedAt := StringValue (Format_RFC3339 (varapi_UpdatedAt variable))\<rparr>"

definition VariableResource_Create ::
  "stdlib \<Rightarrow> InfradotsProvider \<Rightarrow> VariableResourceModel
     \<Rightarrow> VariableResourceModel response" where
  "VariableResource_Create lib p data =
     (let createReq = \<lparr>varnew_Key = ValueString (var_Key data),
                       varnew_Value = ValueString (var_Value data),
                       varnew_Description = ValueString (var_Description data),
                       varnew_Category = ValueString (var_Category data),
                       varnew_Sensitive = ValueBool (var_Sensitive data),
                       varnew_HCL = ValueBool (var_HCL data)\<rparr>;
          reqBody = Marshal_VariableCreateRequest createReq;
          url = ''http://'' @ host p @ ''/api/organizations/''
                @ ValueString (var_OrganizationName data) @ ''/variables/''
      in case NewRequest lib MethodPost url (Some reqBody) of
           Inl err \<Rightarrow> failed [] None (AddError ''Error creating request'' err)
         | Inr req0 \<Rightarrow>
             (let reqHttp = SetHeader ''Content-Type'' ''application/json''
                              (SetHeader ''Authorization'' (''Bearer '' @ token p) req0)
              in case client p reqHttp of
                   Inl err \<Rightarrow> failed [reqHttp] None (AddError ''HTTP request failed'' err)
                 | Inr httpResp \<Rightarrow>
                     (case Body httpResp of
                        Inl err \<Rightarrow>
                          failed [reqHttp] None (AddError ''Error reading response body'' err)
                      | Inr respBody \<Rightarrow>
                          if StatusCode httpResp \<noteq> 201
                          then failed [reqHttp] None
                                 (AddErrorf ''Non-201 response'' ''Status: %d, Body: %s''
                                    [D (StatusCode httpResp), S respBody])
                          else (case Unmarshal_Variable lib respBody of
                                  Inl err \<Rightarrow>
                                    failed [reqHttp] None (AddError ''Error parsing response'' err)
                                | Inr variable \<Rightarrow>
                                    \<lparr>Diagnostics = [],
                                     State = Some (Variable_set_from_response variable data),
                                     Sent = [reqHttp]\<rparr>))))"

definition VariableResource_Read ::
  "stdlib \<Rightarrow> InfradotsProvider \<Rightarrow> VariableResourceModel
     \<Rightarrow> VariableResourceModel response" where
  "VariableResource_Read lib p data =
     (let url = ''http://'' @ host p @ ''/api/organizations/''
                @ ValueString (var_OrganizationName data) @ ''/variables/''
                @ ValueString (var_ID data) @ ''/''
      in case NewRequest lib MethodGet url None of
           Inl err \<Rightarrow> failed [] (Some data) (AddError ''Error creating request'' err)
         | Inr req0 \<Rightarrow>
             (let reqHttp = SetHeader ''Authorization'' (''Bearer '' @ token p) req0
              in case client p reqHttp of
                   Inl err \<Rightarrow> failed [reqHttp] (Some data) (AddError ''HTTP request failed'' err)
                 | Inr httpResp \<Rightarrow>
                     if StatusCode httpResp = 404
                     then \<lparr>Diagnostics = [], State = None, Sent = [reqHttp]\<rparr>
                     else if StatusCode httpResp \<noteq> 200
                     then failed [reqHttp] (Some data)
                            (AddErrorf ''Read failed'' ''Status code: %d'' [D (StatusCode httpResp)])
                     else (case Body httpResp of
                             Inl err \<Rightarrow>
                               failed [reqHttp] (Some data)
                                 (AddError ''Error reading response body'' err)
                           | Inr respBody \<Rightarrow>
                               (case Unmarshal_Variable lib respBody of
                                  Inl err \<Rightarrow>
                                    failed [reqHttp] (Some data)
                                      (AddError ''Error parsing response'' err)
                                | Inr variable \<Rightarrow>
                                    \<lparr>Diagnostics = [],
                                     State = Some (Variable_set_from_response variable data),
                                     Sent = [reqHttp]\<rparr>))))"

text \<open>
  The update request gets a pointer to the plan's boolean where the plan and the state
  differ on it, and keeps \<^verbatim>\<open>nil\<close> where they agree.
\<close>

definition VariableResource_updateReq ::
  "VariableResourceModel \<Rightarrow> VariableResourceModel \<Rightarrow> VariableUpdateRequest" where
  "VariableResource_updateReq state plan =
     \<lparr>varupd_Key = (if var_Key plan \<noteq> var_Key state
                     then ValueString (var_Key plan) else []),
      varupd_Value = (if var_Value plan \<noteq> var_Value state
                       then ValueString (var_Value plan) else []),
      varupd_Description = (if var_Description plan \<noteq> var_Description state
                             then ValueString (var_Description plan) else []),
      varupd_Category = (if var_Category plan \<noteq> var_Category state
                          then ValueString (var_Category plan) else []),
      varupd_Sensitive = (if var_Sensitive plan \<noteq> var_Sensitive state
                           then Some (ValueBool (var_Sensitive plan)) else None),
      varupd_HCL = (if var_HCL plan \<noteq> var_HCL state
                     then Some (ValueBool (var_HCL plan)) else None)\<rparr>"

definition VariableResource_Update ::
  "stdlib \<Rightarrow> InfradotsProvider \<Rightarrow> VariableResourceModel \<Rightarrow> VariableResourceModel
     \<Rightarrow> VariableResourceModel response" where
  "VariableResource_Update lib p state plan =
     (let updateReq = VariableResource_updateReq state plan;
          reqBody = Marshal_VariableUpdateRequest updateReq;
          url = ''http://'' @ host p @ ''/api/organizations/''
                @ ValueString (var_OrganizationName plan) @ ''/variables/''
                @ ValueString (var_ID plan) @ ''/''
      in case NewRequest lib MethodPatch url (Some reqBody) of
           Inl err \<Rightarrow> failed [] (Some state) (AddError ''Error creating request'' err)
         | Inr req0 \<Rightarrow>
             (let reqHttp = SetHeader ''Content-Type'' ''application/json''
                              (SetHeader ''Authorization'' (''Bearer '' @ token p) req0)
              in case client p reqHttp of
                   Inl err \<Rightarrow> failed [reqHttp] (Some state) (AddError ''HTTP request failed'' err)
                 | Inr httpResp \<Rightarrow>
                     (case Body httpResp of
                        Inl err \<Rightarrow>
                          failed [reqHttp] (Some state)
                            (AddError ''Error reading response body'' err)
                      | Inr respBody \<Rightarrow>
                          if StatusCode httpResp \<noteq> 200
                          then failed [reqHttp] (Some state)
                                 (AddErrorf ''Update failed'' ''Status code: %d, Body: %s''
                                    [D (StatusCode httpResp), S respBody])
                          else (case Unmarshal_Variable lib respBody of
                                  Inl err \<Rightarrow>
                                    failed [reqHttp] (Some state)
                                      (AddError ''Error parsing response'' err)
                                | Inr variable \<Rightarrow>
                                    \<lparr>Diagnostics = [],
                                     State = Some (Variable_set_from_response variable plan),
                                     Sent = [reqHttp]\<rparr>))))"

definition VariableResource_Delete ::
  "stdlib \<Rightarrow> InfradotsProvider \<Rightarrow> VariableResourceModel
     \<Rightarrow> VariableResourceModel response" where
  "VariableResource_Delete lib p data =
     (let url = ''http://'' @ host p @ ''/api/organizations/''
                @ ValueString (var_OrganizationName data) @ ''/variables/''
                @ ValueString (var_ID data) @ ''/''
      in case NewRequest lib MethodDelete url None of
           Inl err \<Rightarrow> failed [] (Some data) (AddError ''Error creating request'' err)
         | Inr req0 \<Rightarrow>
             (let reqHttp = SetHeader ''Authorization'' (''Bearer '' @ token p) req0
              in case client p reqHttp of
                   Inl err \<Rightarrow> failed [reqHttp] (Some data) (AddError ''HTTP request failed'' err)
                 | Inr httpResp \<Rightarrow>
                     (case Body httpResp of
                        Inl err \<Rightarrow>
                          failed [reqHttp] (Some data)
                            (AddError ''Error reading response body'' err)
                      | Inr respBody \<Rightarrow>
                          if StatusCode httpResp \<noteq> 204 \<and> StatusCode httpResp \<noteq> 200
                          then failed [reqHttp] (Some data)
                                 (AddErrorf ''Delete failed'' ''Status code: %d, Body: %s''
                                    [D (StatusCode httpResp), S respBody])
                          else \<lparr>Diagnostics = [], State = None, Sent = [reqHttp]\<rparr>)))"

section \<open>The data sources\<close>

text \<open>
  The configuration of a data source is an object with the attributes of its schema, each
  with the value the user wrote or null. \<^verbatim>\<open>req.Config.Get(ctx, &filter)\<close> is the
  framework's conversion of that object into the filter struct by reflection: the names of
  the object's attributes and the \<^verbatim>\<open>tfsdk\<close> tags of the struct must be the same names,
  and the value under each tag must be of the type of the field. Where they are not, it adds
  the diagnostic "Value Conversion Error", whose long detail is cut short here.
\<close>

datatype attr_value =
  AttrString tf_string | AttrBool tf_bool | AttrList "tf_string list option"
  | AttrObject tf_object

type_synonym Config = "(string \<times> attr_value) list"

definition Config_mismatch :: "string list \<Rightarrow> Config \<Rightarrow> bool" where
  "Config_mismatch tags config = (set (map fst config) \<noteq> set tags)"

definition Config_string :: "Config \<Rightarrow> string \<Rightarrow> tf_string option" where
  "Config_string config tag =
     (case map_of config tag of
        Some (AttrString s) \<Rightarrow> Some s
      | _ \<Rightarrow> None)"

definition Get_OrganizationDataSourceFilterModel ::
  "Config \<Rightarrow> diagnostic + OrganizationDataSourceFilterModel" where
  "Get_OrganizationDataSourceFilterModel config =
     (if Config_mismatch [''id'', ''name''] config
      then Inl (AddError ''Value Conversion Error'' ''mismatch between struct and object'')
      else (case (Config_string config ''id'', Config_string config ''name'') of
              (Some ident, Some name) \<Rightarrow> Inr \<lparr>orgf_ID = ident, orgf_Name = name\<rparr>
            | _ \<Rightarrow> Inl (AddError ''Value Conversion Error'' ''unhandled type'')))"

definition Get_WorkspaceDataSourceFilterModel ::
  "Config \<Rightarrow> diagnostic + WorkspaceDataSourceFilterModel" where
  "Get_WorkspaceDataSourceFilterModel config =
     (if Config_mismatch [''id'', ''organization_name'', ''name''] config
      then Inl (AddError ''Value Conversion Error'' ''mismatch between struct and object'')
      else (case (Config_string config ''id'', Config_string config ''organization_name'',
                  Config_string config ''name'') of
              (Some ident, Some organizationName, Some name) \<Rightarrow>
                Inr \<lparr>wsf_ID = ident, wsf_OrganizationName = organizationName,
                     wsf_Name = name\<rparr>
            | _ \<Rightarrow> Inl (AddError ''Value Conversion Error'' ''unhandled type'')))"

definition Get_VCSDataSourceFilterModel ::
  "Config \<Rightarrow> diagnostic + VCSDataSourceFilterModel" where
  "Get_VCSDataSourceFilterModel config =
     (if Config_mismatch [''id'', ''organization_name'', ''name''] config
      then Inl (AddError ''Value Conversion Error'' ''mismatch between struct and object'')
      else (case (Config_string config ''id'', Config_string config ''organization_name'',
                  Config_string config ''name'') of
              (Some ident, Some organizationName, Some name) \<Rightarrow>
                Inr \<lparr>vcsf_ID = ident, vcsf_OrganizationName = organizationName,
                     vcsf_Name = name\<rparr>
            | _ \<Rightarrow> Inl (AddError ''Value Conversion Error'' ''unhandled type'')))"

text \<open>
  The names of the attributes in the three \<^verbatim>\<open>Schema\<close> functions. Of the two revisions
  of the workspace data source, the one with the embedded VCS object is the one below; the
  other one asks over \<^verbatim>\<open>http\<close> and has no attribute \<open>vcs\<close>.
\<close>

definition OrganizationDataSource_Schema :: "string list" where
  "OrganizationDataSource_Schema =
     [''id'', ''name'', ''created_at'', ''updated_at'', ''execution_mode'', ''agents_enabled'',
      ''members'', ''teams'']"

definition WorkspaceDataSource_Schema :: "string list" where
  "WorkspaceDataSource_Schema =
     [''id'', ''organization_name'', ''name'', ''description'', ''source'', ''branch'',
      ''terraform_version'', ''created_at'', ''updated_at'', ''vcs'']"

definition VCSDataSource_Schema :: "string list" where
  "VCSDataSource_Schema =
     [''id'', ''organization_name'', ''name'', ''vcs_type'', ''url'', ''client_id'',
      ''description'', ''created_at'', ''updated_at'']"

text \<open>
  \<^verbatim>\<open>Read\<close> of a data source starts from the null state and reads its filter from the
  configuration; where that adds an error it returns. Then it checks the filter and makes
  one request, to the record when an id is given and to the list otherwise, and scans the
  list for the first record of the given name.
\<close>

definition mapOrganizationToModel ::
  "OrganizationDataSourceModel \<Rightarrow> OrganizationAPIResponse \<Rightarrow> OrganizationDataSourceModel" where
  "mapOrganizationToModel data apiResp =
     data\<lparr>orgds_ID := StringValue (orgapi_ID apiResp),
          orgds_Name := StringValue (orgapi_Name apiResp),
          orgds_CreatedAt := StringValue (Format_RFC3339 (orgapi_CreatedAt apiResp)),
          orgds_UpdatedAt := StringValue (Format_RFC3339 (orgapi_UpdatedAt apiResp)),
          orgds_ExecutionMode := StringValue (orgapi_ExecutionMode apiResp),
          orgds_AgentsEnabled := BoolValue (orgapi_AgentsEnabled apiResp),
          orgds_Members := Some (map StringValue (orgapi_Members apiResp)),
          orgds_Teams := Some (map StringValue (orgapi_Teams apiResp))\<rparr>"

definition OrganizationDataSourceModel_zero :: OrganizationDataSourceModel where
  "OrganizationDataSourceModel_zero =
     \<lparr>orgds_ID = StringNull, orgds_Name = StringNull, orgds_CreatedAt = StringNull,
      orgds_UpdatedAt = StringNull, orgds_ExecutionMode = StringNull,
      orgds_AgentsEnabled = BoolNull, orgds_Members = None, orgds_Teams = None\<rparr>"

definition OrganizationDataSource_Read ::
  "stdlib \<Rightarrow> InfradotsProvider \<Rightarrow> Config
     \<Rightarrow> OrganizationDataSourceModel response" where
  "OrganizationDataSource_Read lib p config =
     (case Get_OrganizationDataSourceFilterModel config of
        Inl diag \<Rightarrow> failed [] None diag
      | Inr filter' \<Rightarrow>
     (if IsNull (orgf_ID filter') \<and> IsNull (orgf_Name filter')
      then failed [] None
             (AddError ''Missing required parameter'' ''Either id or name must be specified'')
      else
        (let data = OrganizationDataSourceModel_zero;
             url = (if \<not> IsNull (orgf_ID filter')
                    then ''https://'' @ host p @ ''/api/organizations/''
                         @ ValueString (orgf_ID filter') @ ''/''
                    else ''https://'' @ host p @ ''/api/organizations/'')
         in case NewRequest lib MethodGet url None of
              Inl err \<Rightarrow> failed [] None (AddError ''Error creating request'' err)
            | Inr req0 \<Rightarrow>
                (let httpReq = SetHeader ''Authorization'' (''Bearer '' @ token p) req0
                 in case client p httpReq of
                      Inl err \<Rightarrow> failed [httpReq] None (AddError ''Error making HTTP request'' err)
                    | Inr httpResp \<Rightarrow>
                        if StatusCode httpResp \<noteq> 200
                        then failed [httpReq] None
                               (AddErrorf ''Unexpected HTTP status code'' ''Expected 200, got: %d''
                                  [D (StatusCode httpResp)])
                        else (case Body httpResp of
                                Inl err \<Rightarrow>
                                  failed [httpReq] None
                                    (AddError ''Error reading response body'' err)
                              | Inr body \<Rightarrow>
                                  if \<not> IsNull (orgf_ID filter')
                                  then (case Unmarshal_Organization lib body of
                                          Inl err \<Rightarrow>
                                            failed [httpReq] None
                                              (AddError ''Error parsing response'' err)
                                        | Inr apiResp \<Rightarrow>
                                            \<lparr>Diagnostics = [],
                                             State = Some (mapOrganizationToModel data apiResp),
                                             Sent = [httpReq]\<rparr>)
                                  else (case Unmarshal_Organizations lib body of
                                          Inl err \<Rightarrow>
                                            failed [httpReq] None
                                              (AddError ''Error parsing response'' err)
                                        | Inr apiRespList \<Rightarrow>
                                            (case find (\<lambda>org. orgapi_Name org
                                                          = ValueString (orgf_Name filter'))
                                                    apiRespList of
                                               None \<Rightarrow>
                                                 failed [httpReq] None
                                                   (AddErrorf ''Organization not found''
                                                      ''No organization with name '%s' found''
                                                      [S (ValueString (orgf_Name filter'))])
                                             | Some org \<Rightarrow>
                                                 \<lparr>Diagnostics = [],
                                                  State = Some (mapOrganizationToModel data org),
                                                  Sent = [httpReq]\<rparr>)))))))"

definition WorkspaceDataSource_map ::
  "tf_string \<Rightarrow> WorkspaceAPIResponse \<Rightarrow> WorkspaceDataSourceModel" where
  "WorkspaceDataSource_map organizationName workspace =
     \<lparr>wsds_ID = StringValue (wsapi_ID workspace),
      wsds_OrganizationName = organizationName,
      wsds_Name = StringValue (wsapi_Name workspace),
      wsds_Description = StringValue (wsapi_Description workspace),
      wsds_Source = StringValue (wsapi_Source workspace),
      wsds_Branch = StringValue (wsapi_Branch workspace),
      wsds_TerraformVersion = StringValue (wsapi_TerraformVersion workspace),
      wsds_CreatedAt = StringValue (Format_RFC3339 (wsapi_CreatedAt workspace)),
      wsds_UpdatedAt = StringValue (Format_RFC3339 (wsapi_UpdatedAt workspace)),
      wsds_VCS = vcsToObject (wsapi_VCS workspace)\<rparr>"

definition WorkspaceDataSource_Read ::
  "stdlib \<Rightarrow> InfradotsProvider \<Rightarrow> Config
     \<Rightarrow> WorkspaceDataSourceModel response" where
  "WorkspaceDataSource_Read lib p config =
     (case Get_WorkspaceDataSourceFilterModel config of
        Inl diag \<Rightarrow> failed [] None diag
      | Inr filter' \<Rightarrow>
     (if IsNull (wsf_ID filter')
         \<and> (IsNull (wsf_OrganizationName filter') \<or> IsNull (wsf_Name filter'))
      then failed [] None
             (AddError ''Missing required parameter''
                ''Either id or both organization_name and name must be specified'')
      else if \<not> IsNull (wsf_ID filter') \<and> IsNull (wsf_OrganizationName filter')
      then failed [] None
             (AddError ''Missing required parameter''
                ''When filtering by ID, organization_name must also be specified'')
      else
        (let url = (if \<not> IsNull (wsf_ID filter')
                    then ''https://'' @ host p @ ''/api/organizations/''
                         @ ValueString (wsf_OrganizationName filter') @ ''/workspaces/''
                         @ ValueString (wsf_ID filter') @ ''/''
                    else ''https://'' @ host p @ ''/api/organizations/''
                         @ ValueString (wsf_OrganizationName filter') @ ''/workspaces/'')
         in case NewRequest lib MethodGet url None of
              Inl err \<Rightarrow> failed [] None (AddError ''Error creating request'' err)
            | Inr req0 \<Rightarrow>
                (let httpReq = SetHeader ''Authorization'' (''Bearer '' @ token p) req0
                 in case client p httpReq of
                      Inl err \<Rightarrow> failed [httpReq] None (AddError ''Error making HTTP request'' err)
                    | Inr httpResp \<Rightarrow>
                        if StatusCode httpResp \<noteq> 200
                        then failed [httpReq] None
                               (AddErrorf ''Unexpected HTTP status code'' ''Expected 200, got: %d''
                                  [D (StatusCode httpResp)])
                        else (case Body httpResp of
                                Inl err \<Rightarrow>
                                  failed [httpReq] None
                                    (AddError ''Error reading response body'' err)
                              | Inr body \<Rightarrow>
                                  if \<not> IsNull (wsf_ID filter')
                                  then (case Unmarshal_Workspace lib body of
                                          Inl err \<Rightarrow>
                                            failed [httpReq] None
                                              (AddError ''Error parsing response'' err)
                                        | Inr apiResp \<Rightarrow>
                                            \<lparr>Diagnostics = [],
                                             State = Some (WorkspaceDataSource_map
                                                            (wsf_OrganizationName filter') apiResp),
                                             Sent = [httpReq]\<rparr>)
                                  else (case Unmarshal_Workspaces lib body of
                                          Inl err \<Rightarrow>
                                            failed [httpReq] None
                                              (AddError ''Error parsing response'' err)
                                        | Inr apiRespList \<Rightarrow>
                                            (case find (\<lambda>workspace. wsapi_Name workspace
                                                          = ValueString (wsf_Name filter'))
                                                    apiRespList of
                                               None \<Rightarrow>
                                                 failed [httpReq] None
                                                   (AddErrorf ''Workspace not found''
                                                      (''No workspace with name '%s' found in organization '%s''
                                                       @ [CHR 0x27])
                                                      [S (ValueString (wsf_Name filter')),
                                                       S (ValueString (wsf_OrganizationName filter'))])
                                             | Some workspace \<Rightarrow>
                                                 \<lparr>Diagnostics = [],
                                                  State = Some (WorkspaceDataSource_map
                                                                 (wsf_OrganizationName filter')
                                                                 workspace),
                                                  Sent = [httpReq]\<rparr>)))))))"

definition VCSDataSource_map :: "tf_string \<Rightarrow> VCSAPIResponse \<Rightarrow> VCSDataSourceModel" where
  "VCSDataSource_map organizationName vcs =
     \<lparr>vcsds_ID = StringValue (vcsapi_ID vcs),
      vcsds_OrganizationName = organizationName,
      vcsds_Name = StringValue (vcsapi_Name vcs),
      vcsds_VcsType = StringValue (vcsapi_VcsType vcs),
      vcsds_URL = StringValue (vcsapi_URL vcs),
      vcsds_ClientId = StringValue (vcsapi_ClientId vcs),
      vcsds_Description = StringValue (vcsapi_Description vcs),
      vcsds_CreatedAt = StringValue (Format_RFC3339 (vcsapi_CreatedAt vcs)),
      vcsds_UpdatedAt = StringValue (Format_RFC3339 (vcsapi_UpdatedAt vcs))\<rparr>"

definition VCSDataSource_Read ::
  "stdlib \<Rightarrow> InfradotsProvider \<Rightarrow> Config
     \<Rightarrow> VCSDataSourceModel response" where
  "VCSDataSource_Read lib p config =
     (case Get_VCSDataSourceFilterModel config of
        Inl diag \<Rightarrow> failed [] None diag
      | Inr filter' \<Rightarrow>
     (if IsNull (vcsf_ID filter')
         \<and> (IsNull (vcsf_OrganizationName filter') \<or> IsNull (vcsf_Name filter'))
      then failed [] None
             (AddError ''Missing required parameter''
                ''Either id or both organization_name and name must be specified'')
      else if \<not> IsNull (vcsf_ID filter') \<and> IsNull (vcsf_OrganizationName filter')
      then failed [] None
             (AddError ''Missing required parameter''
                ''When filtering by ID, organization_name must also be specified'')
      else
        (let url = (if \<not> IsNull (vcsf_ID filter')
                    then ''https://'' @ host p @ ''/api/organizations/''
                         @ ValueString (vcsf_OrganizationName filter') @ ''/vcs/''
                         @ ValueString (vcsf_ID filter') @ ''/''
                    else ''https://'' @ host p @ ''/api/organizations/''
                         @ ValueString (vcsf_OrganizationName filter') @ ''/vcs/'')
         in case NewRequest lib MethodGet url None of
              Inl err \<Rightarrow> failed [] None (AddError ''Error creating request'' err)
            | Inr req0 \<Rightarrow>
                (let httpReq = SetHeader ''Authorization'' (''Bearer '' @ token p) req0
                 in case client p httpReq of
                      Inl err \<Rightarrow> failed [httpReq] None (AddError ''Error making HTTP request'' err)
                    | Inr httpResp \<Rightarrow>
                        if StatusCode httpResp \<noteq> 200
                        then failed [httpReq] None
                               (AddErrorf ''Unexpected HTTP status code'' ''Expected 200, got: %d''
                                  [D (StatusCode httpResp)])
                        else (case Body httpResp of
                                Inl err \<Rightarrow>
                                  failed [httpReq] None
                                    (AddError ''Error reading response body'' err)
                              | Inr body \<Rightarrow>
                                  if \<not> IsNull (vcsf_ID filter')
                                  then (case Unmarshal_VCS lib body of
                                          Inl err \<Rightarrow>
                                            failed [httpReq] None
                                              (AddError ''Error parsing response'' err)
                                        | Inr apiResp \<Rightarrow>
                                            \<lparr>Diagnostics = [],
                                             State = Some (VCSDataSource_map
                                                            (vcsf_OrganizationName filter') apiResp),
                                             Sent = [httpReq]\<rparr>)
                                  else (case Unmarshal_VCSs lib body of
                                          Inl err \<Rightarrow>
                                            failed [httpReq] None
                                              (AddError ''Error parsing response'' err)
                                        | Inr apiRespList \<Rightarrow>
                                            (case find (\<lambda>vcs. vcsapi_Name vcs
                                                          = ValueString (vcsf_Name filter'))
                                                    apiRespList of
                                               None \<Rightarrow>
                                                 failed [httpReq] None
                                                   (AddErrorf ''VCS connection not found''
                                                      (''No VCS connection with name '%s' found in organization '%s''
                                                       @ [CHR 0x27])
                                                      [S (ValueString (vcsf_Name filter')),
                                                       S (ValueString (vcsf_OrganizationName filter'))])
                                             | Some vcs \<Rightarrow>
                                                 \<lparr>Diagnostics = [],
                                                  State = Some (VCSDataSource_map
                                                                 (vcsf_OrganizationName filter') vcs),
                                                  Sent = [httpReq]\<rparr>)))))))"

section \<open>The contracts and inputs of the theorems\<close>

text \<open>
  What \<^verbatim>\<open>Delete\<close> owes after a response with a readable body: on status 204 or 200 the
  record is gone and nothing is reported; on any other status the record is still in the
  state and one error, "Delete failed", is reported.
\<close>

definition Delete_contract :: "http_response \<Rightarrow> 'm \<Rightarrow> 'm response \<Rightarrow> bool" where
  "Delete_contract httpResp data r =
     (if StatusCode httpResp = 204 \<or> StatusCode httpResp = 200
      then State r = None \<and> Diagnostics r = []
      else State r = Some data \<and> map Summary (Diagnostics r) = [''Delete failed''])"



text \<open>Concrete inputs: a library that accepts every URL, and a server with one answer.\<close>

definition lib_example :: stdlib where
  "lib_example =
     \<lparr>url_error = (\<lambda>url. None),
      Unmarshal_Organization = (\<lambda>b. Inl ''unexpected end of JSON input''),
      Unmarshal_Organizations = (\<lambda>b. Inl ''unexpected end of JSON input''),
      Unmarshal_Workspace = (\<lambda>b. Inl ''unexpected end of JSON input''),
      Unmarshal_Workspaces = (\<lambda>b. Inl ''unexpected end of JSON input''),
      Unmarshal_VCS = (\<lambda>b. Inl ''unexpected end of JSON input''),
      Unmarshal_VCSs = (\<lambda>b. Inl ''unexpected end of JSON input''),
      Unmarshal_Variable = (\<lambda>b. Inl ''unexpected end of JSON input'')\<rparr>"

definition provider_answering :: "int \<Rightarrow> string \<Rightarrow> InfradotsProvider" where
  "provider_answering status body =
     \<lparr>host = ''api.infradots.com'', token = ''idp-token'',
      client = (\<lambda>req. Inr \<lparr>StatusCode = status, Body = Inr body\<rparr>)\<rparr>"

definition org_example :: OrganizationResourceModel where
  "org_example =
     \<lparr>org_ID = StringValue ''2e240d2c'', org_Name = StringValue ''test-org'',
      org_CreatedAt = StringValue ''2025-07-07T12:00:00Z'',
      org_UpdatedAt = StringValue ''2025-07-07T12:00:00Z'',
      org_ExecutionMode = StringValue ''remote'', org_AgentsEnabled = BoolValue True\<rparr>"

definition ws_example :: WorkspaceResourceModel where
  "ws_example =
     \<lparr>ws_ID = StringValue ''3f350e3d'', ws_OrganizationName = StringValue ''test-org'',
      ws_Name = StringValue ''test-workspace'', ws_Description = StringValue ''Test workspace'',
      ws_Source = StringValue ''https://github.com/test/repo'', ws_Branch = StringValue ''main'',
      ws_TerraformVersion = StringValue ''1.5.0'',
      ws_CreatedAt = StringValue ''2025-07-07T12:00:00Z'',
      ws_UpdatedAt = StringValue ''2025-07-07T12:00:00Z'',
      ws_VcsId = StringNull, ws_VCS = ObjectNull\<rparr>"

definition vcs_example :: VCSResourceModel where
  "vcs_example =
     \<lparr>vcs_ID = StringValue ''5f560f5e'', vcs_OrganizationName = StringValue ''test-org'',
      vcs_Name = StringValue ''test-vcs'', vcs_VcsType = StringValue ''github'',
      vcs_URL = StringValue ''https://github.com'', vcs_ClientId = StringValue ''test-client-id'',
      vcs_ClientSecret = StringValue ''test-client-secret'',
      vcs_Description = StringValue ''Test VCS'',
      vcs_CreatedAt = StringValue ''2025-07-07T12:00:00Z'',
      vcs_UpdatedAt = StringValue ''2025-07-07T12:00:00Z''\<rparr>"

definition var_example :: VariableResourceModel where
  "var_example =
     \<lparr>var_ID = StringValue ''4a450f4e'', var_OrganizationName = StringValue ''test-org'',
      var_Key = StringValue ''test-key'', var_Value = StringValue ''test-value'',
      var_Description = StringValue ''Test variable'', var_Category = StringValue ''terraform'',
      var_Sensitive = BoolValue True, var_HCL = BoolValue False,
      var_CreatedAt = StringValue ''2025-07-07T12:00:00Z'',
      var_UpdatedAt = StringValue ''2025-07-07T12:00:00Z''\<rparr>"

text \<open>Decoded responses, and libraries that decode every body to them.\<close>

definition workspace_response :: "string \<Rightarrow> string \<Rightarrow> WorkspaceAPIResponse" where
  "workspace_response ident name =
     \<lparr>wsapi_ID = ident, wsapi_Name = name, wsapi_Description = ''Test workspace'',
      wsapi_Source = ''https://github.com/test/repo'', wsapi_Branch = ''main'',
      wsapi_TerraformVersion = ''1.5.0'', wsapi_CreatedAt = Time ''2025-07-07T12:00:00Z'',
      wsapi_UpdatedAt = Time ''2025-07-07T12:00:00Z'', wsapi_VCS = None\<rparr>"

definition vcs_response :: "string \<Rightarrow> string \<Rightarrow> VCSAPIResponse" where
  "vcs_response ident name =
     \<lparr>vcsapi_ID = ident, vcsapi_Name = name, vcsapi_VcsType = ''github'',
      vcsapi_URL = ''https://github.com'', vcsapi_ClientId = ''test-client-id'',
      vcsapi_Description = ''Test VCS'', vcsapi_CreatedAt = Time ''2025-07-07T12:00:00Z'',
      vcsapi_UpdatedAt = Time ''2025-07-07T12:00:00Z''\<rparr>"

definition variable_response :: "string \<Rightarrow> VariableAPIResponse" where
  "variable_response val =
     \<lparr>varapi_ID = ''4a450f4e'', varapi_Key = ''test-key'', varapi_Value = val,
      varapi_Description = ''Test variable'', varapi_Category = ''terraform'',
      varapi_Sensitive = True, varapi_HCL = False,
      varapi_CreatedAt = Time ''2025-07-07T12:00:00Z'',
      varapi_UpdatedAt = Time ''2025-07-07T12:00:00Z''\<rparr>"

definition organization_response :: "string \<Rightarrow> OrganizationAPIResponse" where
  "organization_response mode =
     \<lparr>orgapi_ID = ''2e240d2c'', orgapi_Name = ''test-org'',
      orgapi_Members = [''test@example.com''],
      orgapi_CreatedAt = Time ''2025-07-07T12:00:00Z'',
      orgapi_UpdatedAt = Time ''2025-07-07T12:00:00Z'', orgapi_Teams = [''devops''],
      orgapi_ExecutionMode = mode, orgapi_AgentsEnabled = True\<rparr>"

definition lib_workspaces :: "WorkspaceAPIResponse list \<Rightarrow> stdlib" where
  "lib_workspaces ws = lib_example\<lparr>Unmarshal_Workspaces := (\<lambda>b. Inr ws)\<rparr>"

definition lib_vcss :: "VCSAPIResponse list \<Rightarrow> stdlib" where
  "lib_vcss vs = lib_example\<lparr>Unmarshal_VCSs := (\<lambda>b. Inr vs)\<rparr>"

definition lib_vcs :: "VCSAPIResponse \<Rightarrow> stdlib" where
  "lib_vcs v = lib_example\<lparr>Unmarshal_VCS := (\<lambda>b. Inr v)\<rparr>"

definition lib_variable :: "VariableAPIResponse \<Rightarrow> stdlib" where
  "lib_variable v = lib_example\<lparr>Unmarshal_Variable := (\<lambda>b. Inr v)\<rparr>"

definition lib_organization :: "OrganizationAPIResponse \<Rightarrow> stdlib" where
  "lib_organization v = lib_example\<lparr>Unmarshal_Organization := (\<lambda>b. Inr v)\<rparr>"

text \<open>Configurations of the three data sources, with every attribute of the schema.\<close>

definition organization_config :: "tf_string \<Rightarrow> tf_string \<Rightarrow> Config" where
  "organization_config ident name =
     [(''id'', AttrString ident), (''name'', AttrString name),
      (''created_at'', AttrString StringNull), (''updated_at'', AttrString StringNull),
      (''execution_mode'', AttrString StringNull), (''agents_enabled'', AttrBool BoolNull),
      (''members'', AttrList None), (''teams'', AttrList None)]"

definition workspace_config :: "tf_string \<Rightarrow> tf_string \<Rightarrow> tf_string \<Rightarrow> Config" where
  "workspace_config ident organizationName name =
     [(''id'', AttrString ident), (''organization_name'', AttrString organizationName),
      (''name'', AttrString name), (''description'', AttrString StringNull),
      (''source'', AttrString StringNull), (''branch'', AttrString StringNull),
      (''terraform_version'', AttrString StringNull), (''created_at'', AttrString StringNull),
      (''updated_at'', AttrString StringNull), (''vcs'', AttrObject ObjectNull)]"

definition vcs_config :: "tf_string \<Rightarrow> tf_string \<Rightarrow> tf_string \<Rightarrow> Config" where
  "vcs_config ident organizationName name =
     [(''id'', AttrString ident), (''organization_name'', AttrString organizationName),
      (''name'', AttrString name), (''vcs_type'', AttrString StringNull),
      (''url'', AttrString StringNull), (''client_id'', AttrString StringNull),
      (''description'', AttrString StringNull), (''created_at'', AttrString StringNull),
      (''updated_at'', AttrString StringNull)]"

text \<open>A server that answers 201 to a POST and 200 to every other request.\<close>

definition provider_creating :: "string \<Rightarrow> InfradotsProvider" where
  "provider_creating body =
     \<lparr>host = ''api.infradots.com'', token = ''idp-token'',
      client = (\<lambda>req. if Method req = MethodPost
                       then Inr \<lparr>StatusCode = 201, Body = Inr body\<rparr>
                       else Inr \<lparr>StatusCode = 200, Body = Inr body\<rparr>)\<rparr>"

section \<open>Delete\<close>

lemmas run_defs = NewRequest_def SetHeader_def failed_def received_def Let_def

lemmas example_defs =
  lib_example_def provider_answering_def provider_creating_def lib_workspaces_def lib_vcss_def
  lib_vcs_def lib_variable_def lib_organization_def

lemma OrganizationResource_Delete_contract:
  "received p (OrganizationResource_Delete lib p data) = Some httpResp
   \<Longrightarrow> Body httpResp = Inr respBody
   \<Longrightarrow> Delete_contract httpResp data (OrganizationResource_Delete lib p data)"
  by (auto simp: OrganizationResource_Delete_def Delete_contract_def run_defs
      split: option.splits sum.splits if_splits)

lemma WorkspaceResource_Delete_contract:
  "received p (WorkspaceResource_Delete lib p data) = Some httpResp
   \<Longrightarrow> Body httpResp = Inr respBody
   \<Longrightarrow> Delete_contract httpResp data (WorkspaceResource_Delete lib p data)"
  by (auto simp: WorkspaceResource_Delete_def Delete_contract_def run_defs
      split: option.splits sum.splits if_splits)

lemma VCSResource_Delete_contract:
  "received p (VCSResource_Delete lib p data) = Some httpResp
   \<Longrightarrow> Body httpResp = Inr respBody
   \<Longrightarrow> Delete_contract httpResp data (VCSResource_Delete lib p data)"
  by (auto simp: VCSResource_Delete_def Delete_contract_def run_defs
      split: option.splits sum.splits if_splits)

lemma VariableResource_Delete_contract:
  "received p (VariableResource_Delete lib p data) = Some httpResp
   \<Longrightarrow> Body httpResp = Inr respBody
   \<Longrightarrow> Delete_contract httpResp data (VariableResource_Delete lib p data)"
  by (auto simp: VariableResource_Delete_def Delete_contract_def run_defs
      split: option.splits sum.splits if_splits)

text \<open>
  C1, as the code has it. For each of the four resources, a \<^verbatim>\<open>Delete\<close> whose request
  was answered with a readable body removes the record and reports nothing when the status
  is 204 or 200; with every other status, 404 and 500 among them, it reports the error
  "Delete failed" and the record stays in the state.
\<close>

theorem Delete_removes_on_204_or_200_only:
  "(received p (OrganizationResource_Delete lib p org) = Some httpResp
      \<and> Body httpResp = Inr respBody
      \<longrightarrow> Delete_contract httpResp org (OrganizationResource_Delete lib p org))
   \<and> (received p (WorkspaceResource_Delete lib p ws) = Some httpResp
      \<and> Body httpResp = Inr respBody
      \<longrightarrow> Delete_contract httpResp ws (WorkspaceResource_Delete lib p ws))
   \<and> (received p (VariableResource_Delete lib p var) = Some httpResp
      \<and> Body httpResp = Inr respBody
      \<longrightarrow> Delete_contract httpResp var (VariableResource_Delete lib p var))
   \<and> (received p (VCSResource_Delete lib p vcs) = Some httpResp
      \<and> Body httpResp = Inr respBody
      \<longrightarrow> Delete_contract httpResp vcs (VCSResource_Delete lib p vcs))"
  using OrganizationResource_Delete_contract WorkspaceResource_Delete_contract
    VariableResource_Delete_contract VCSResource_Delete_contract
  by blast

text \<open>
  The theorem at a server that answers 204 with an empty body: the four records are removed.
\<close>

theorem Delete_removes_on_204_or_200_only_witness:
  "received (provider_answering 204 [])
       (OrganizationResource_Delete lib_example (provider_answering 204 []) org_example)
     = Some \<lparr>StatusCode = 204, Body = Inr []\<rparr>
   \<and> received (provider_answering 204 [])
       (WorkspaceResource_Delete lib_example (provider_answering 204 []) ws_example)
     = Some \<lparr>StatusCode = 204, Body = Inr []\<rparr>
   \<and> received (provider_answering 204 [])
       (VariableResource_Delete lib_example (provider_answering 204 []) var_example)
     = Some \<lparr>StatusCode = 204, Body = Inr []\<rparr>
   \<and> received (provider_answering 204 [])
       (VCSResource_Delete lib_example (provider_answering 204 []) vcs_example)
     = Some \<lparr>StatusCode = 204, Body = Inr []\<rparr>
   \<and> State (OrganizationResource_Delete lib_example (provider_answering 204 []) org_example)
     = None
   \<and> State (WorkspaceResource_Delete lib_example (provider_answering 204 []) ws_example) = None
   \<and> State (VariableResource_Delete lib_example (provider_answering 204 []) var_example) = None
   \<and> State (VCSResource_Delete lib_example (provider_answering 204 []) vcs_example) = None"
proof -
  let ?p = "provider_answering 204 []"
  let ?resp = "\<lparr>StatusCode = 204, Body = Inr []\<rparr>"
  have org: "received ?p (OrganizationResource_Delete lib_example ?p org_example) = Some ?resp"
    by (simp add: OrganizationResource_Delete_def run_defs example_defs)
  have ws: "received ?p (WorkspaceResource_Delete lib_example ?p ws_example) = Some ?resp"
    by (simp add: WorkspaceResource_Delete_def run_defs example_defs)
  have var: "received ?p (VariableResource_Delete lib_example ?p var_example) = Some ?resp"
    by (simp add: VariableResource_Delete_def run_defs example_defs)
  have vcs: "received ?p (VCSResource_Delete lib_example ?p vcs_example) = Some ?resp"
    by (simp add: VCSResource_Delete_def run_defs example_defs)
  show ?thesis
    using org ws var vcs
      Delete_removes_on_204_or_200_only [of ?p lib_example org_example ?resp "[]"
        ws_example var_example vcs_example]
    by (simp add: Delete_contract_def)
qed

text \<open>
  C1 as it is written fails at status 404: the server answers the \<^verbatim>\<open>Delete\<close> of an
  organization with 404, and the operation reports "Delete failed" and keeps the record.
\<close>

theorem Delete_404_keeps_record:
  "received (provider_answering 404 ''Not found'')
       (OrganizationResource_Delete lib_example
          (provider_answering 404 ''Not found'') org_example)
     = Some \<lparr>StatusCode = 404, Body = Inr ''Not found''\<rparr>
   \<and> State (OrganizationResource_Delete lib_example
          (provider_answering 404 ''Not found'') org_example)
     = Some org_example
   \<and> Diagnostics (OrganizationResource_Delete lib_example
          (provider_answering 404 ''Not found'') org_example)
     = [AddErrorf ''Delete failed'' ''Status code: %d, Body: %s''
          [D 404, S ''Not found'']]"
  by (simp add: OrganizationResource_Delete_def run_defs example_defs)

section \<open>Read of a record that is gone\<close>

text \<open>
  C5. For each of the four resources, a \<^verbatim>\<open>Read\<close> whose request was answered with
  status 404 leaves the null state, the record removed, and reports no diagnostic.
\<close>

theorem Read_404_removes_record:
  "(received p (OrganizationResource_Read lib p org) = Some httpResp \<and> StatusCode httpResp = 404
      \<longrightarrow> State (OrganizationResource_Read lib p org) = None
          \<and> Diagnostics (OrganizationResource_Read lib p org) = [])
   \<and> (received p (WorkspaceResource_Read lib p ws) = Some httpResp \<and> StatusCode httpResp = 404
      \<longrightarrow> State (WorkspaceResource_Read lib p ws) = None
          \<and> Diagnostics (WorkspaceResource_Read lib p ws) = [])
   \<and> (received p (VariableResource_Read lib p var) = Some httpResp \<and> StatusCode httpResp = 404
      \<longrightarrow> State (VariableResource_Read lib p var) = None
          \<and> Diagnostics (VariableResource_Read lib p var) = [])
   \<and> (received p (VCSResource_Read lib p vcs) = Some httpResp \<and> StatusCode httpResp = 404
      \<longrightarrow> State (VCSResource_Read lib p vcs) = None
          \<and> Diagnostics (VCSResource_Read lib p vcs) = [])"
proof (intro conjI impI)
  assume "received p (OrganizationResource_Read lib p org) = Some httpResp
          \<and> StatusCode httpResp = 404"
  then show "State (OrganizationResource_Read lib p org) = None"
    and "Diagnostics (OrganizationResource_Read lib p org) = []"
    by (auto simp: OrganizationResource_Read_def run_defs split: option.splits sum.splits)
next
  assume "received p (WorkspaceResource_Read lib p ws) = Some httpResp
          \<and> StatusCode httpResp = 404"
  then show "State (WorkspaceResource_Read lib p ws) = None"
    and "Diagnostics (WorkspaceResource_Read lib p ws) = []"
    by (auto simp: WorkspaceResource_Read_def run_defs split: option.splits sum.splits)
next
  assume "received p (VariableResource_Read lib p var) = Some httpResp
          \<and> StatusCode httpResp = 404"
  then show "State (VariableResource_Read lib p var) = None"
    and "Diagnostics (VariableResource_Read lib p var) = []"
    by (auto simp: VariableResource_Read_def run_defs split: option.splits sum.splits)
next
  assume "received p (VCSResource_Read lib p vcs) = Some httpResp
          \<and> StatusCode httpResp = 404"
  then show "State (VCSResource_Read lib p vcs) = None"
    and "Diagnostics (VCSResource_Read lib p vcs) = []"
    by (auto simp: VCSResource_Read_def run_defs split: option.splits sum.splits)
qed

text \<open>The theorem at a server that answers 404 to every request.\<close>

theorem Read_404_removes_record_witness:
  "received (provider_answering 404 ''Not found'')
       (OrganizationResource_Read lib_example (provider_answering 404 ''Not found'') org_example)
     = Some \<lparr>StatusCode = 404, Body = Inr ''Not found''\<rparr>
   \<and> received (provider_answering 404 ''Not found'')
       (WorkspaceResource_Read lib_example (provider_answering 404 ''Not found'') ws_example)
     = Some \<lparr>StatusCode = 404, Body = Inr ''Not found''\<rparr>
   \<and> received (provider_answering 404 ''Not found'')
       (VariableResource_Read lib_example (provider_answering 404 ''Not found'') var_example)
     = Some \<lparr>StatusCode = 404, Body = Inr ''Not found''\<rparr>
   \<and> received (provider_answering 404 ''Not found'')
       (VCSResource_Read lib_example (provider_answering 404 ''Not found'') vcs_example)
     = Some \<lparr>StatusCode = 404, Body = Inr ''Not found''\<rparr>
   \<and> State (OrganizationResource_Read lib_example (provider_answering 404 ''Not found'')
        org_example) = None
   \<and> Diagnostics (OrganizationResource_Read lib_example (provider_answering 404 ''Not found'')
        org_example) = []
   \<and> State (WorkspaceResource_Read lib_example (provider_answering 404 ''Not found'')
        ws_example) = None
   \<and> Diagnostics (WorkspaceResource_Read lib_example (provider_answering 404 ''Not found'')
        ws_example) = []
   \<and> State (VariableResource_Read lib_example (provider_answering 404 ''Not found'')
        var_example) = None
   \<and> Diagnostics (VariableResource_Read lib_example (provider_answering 404 ''Not found'')
        var_example) = []
   \<and> State (VCSResource_Read lib_example (provider_answering 404 ''Not found'')
        vcs_example) = None
   \<and> Diagnostics (VCSResource_Read lib_example (provider_answering 404 ''Not found'')
        vcs_example) = []"
proof -
  let ?p = "provider_answering 404 ''Not found''"
  let ?resp = "\<lparr>StatusCode = 404, Body = Inr ''Not found''\<rparr>"
  have org: "received ?p (OrganizationResource_Read lib_example ?p org_example) = Some ?resp"
    by (simp add: OrganizationResource_Read_def run_defs example_defs)
  have ws: "received ?p (WorkspaceResource_Read lib_example ?p ws_example) = Some ?resp"
    by (simp add: WorkspaceResource_Read_def run_defs example_defs)
  have var: "received ?p (VariableResource_Read lib_example ?p var_example) = Some ?resp"
    by (simp add: VariableResource_Read_def run_defs example_defs)
  have vcs: "received ?p (VCSResource_Read lib_example ?p vcs_example) = Some ?resp"
    by (simp add: VCSResource_Read_def run_defs example_defs)
  show ?thesis
    using org ws var vcs
      Read_404_removes_record [of ?p lib_example org_example ?resp
        ws_example var_example vcs_example]
    by simp
qed

section \<open>The filter of a data source\<close>

lemmas DataSource_Get_defs =
  Get_OrganizationDataSourceFilterModel_def Get_WorkspaceDataSourceFilterModel_def
  Get_VCSDataSourceFilterModel_def Config_mismatch_def Config_string_def

lemma Config_mismatchI:
  "x \<in> set (map fst config) \<Longrightarrow> x \<notin> set tags \<Longrightarrow> Config_mismatch tags config"
  unfolding Config_mismatch_def by blast

text \<open>
  A configuration with the attributes of the schema never gets past \<^verbatim>\<open>Config.Get\<close>:
  each schema has attributes for which the filter struct has no field.
\<close>

lemma OrganizationDataSource_Read_stops_at_Get:
  assumes "set (map fst config) = set OrganizationDataSource_Schema"
  shows "OrganizationDataSource_Read lib p config
         = failed [] None
             (AddError ''Value Conversion Error'' ''mismatch between struct and object'')"
proof -
  have "Config_mismatch [''id'', ''name''] config"
  proof (rule Config_mismatchI [where x = "''created_at''"])
    show "''created_at'' \<in> set (map fst config)"
      by (simp only: assms) (simp add: OrganizationDataSource_Schema_def)
    show "''created_at'' \<notin> set [''id'', ''name'']"
      by simp
  qed
  then show ?thesis
    by (simp add: OrganizationDataSource_Read_def Get_OrganizationDataSourceFilterModel_def)
qed

lemma WorkspaceDataSource_Read_stops_at_Get:
  assumes "set (map fst config) = set WorkspaceDataSource_Schema"
  shows "WorkspaceDataSource_Read lib p config
         = failed [] None
             (AddError ''Value Conversion Error'' ''mismatch between struct and object'')"
proof -
  have "Config_mismatch [''id'', ''organization_name'', ''name''] config"
  proof (rule Config_mismatchI [where x = "''created_at''"])
    show "''created_at'' \<in> set (map fst config)"
      by (simp only: assms) (simp add: WorkspaceDataSource_Schema_def)
    show "''created_at'' \<notin> set [''id'', ''organization_name'', ''name'']"
      by simp
  qed
  then show ?thesis
    by (simp add: WorkspaceDataSource_Read_def Get_WorkspaceDataSourceFilterModel_def)
qed

lemma VCSDataSource_Read_stops_at_Get:
  assumes "set (map fst config) = set VCSDataSource_Schema"
  shows "VCSDataSource_Read lib p config
         = failed [] None
             (AddError ''Value Conversion Error'' ''mismatch between struct and object'')"
proof -
  have "Config_mismatch [''id'', ''organization_name'', ''name''] config"
  proof (rule Config_mismatchI [where x = "''created_at''"])
    show "''created_at'' \<in> set (map fst config)"
      by (simp only: assms) (simp add: VCSDataSource_Schema_def)
    show "''created_at'' \<notin> set [''id'', ''organization_name'', ''name'']"
      by simp
  qed
  then show ?thesis
    by (simp add: VCSDataSource_Read_def Get_VCSDataSourceFilterModel_def)
qed

text \<open>
  The test of the filter as it is written, for a configuration that \<^verbatim>\<open>Config.Get\<close>
  converts (one with the attributes of the filter struct and no other): no id and not the
  whole name filter give "Missing required parameter", and no request.
\<close>

lemma DataSource_Read_filter_test:
  "Get_OrganizationDataSourceFilterModel config = Inr orgf
   \<Longrightarrow> IsNull (orgf_ID orgf) \<and> IsNull (orgf_Name orgf)
   \<Longrightarrow> OrganizationDataSource_Read lib p config
       = failed [] None
           (AddError ''Missing required parameter'' ''Either id or name must be specified'')"
  "Get_WorkspaceDataSourceFilterModel config = Inr wsf
   \<Longrightarrow> IsNull (wsf_ID wsf) \<and> (IsNull (wsf_OrganizationName wsf) \<or> IsNull (wsf_Name wsf))
   \<Longrightarrow> WorkspaceDataSource_Read lib p config
       = failed [] None
           (AddError ''Missing required parameter''
              ''Either id or both organization_name and name must be specified'')"
  "Get_VCSDataSourceFilterModel config = Inr vcsf
   \<Longrightarrow> IsNull (vcsf_ID vcsf) \<and> (IsNull (vcsf_OrganizationName vcsf) \<or> IsNull (vcsf_Name vcsf))
   \<Longrightarrow> VCSDataSource_Read lib p config
       = failed [] None
           (AddError ''Missing required parameter''
              ''Either id or both organization_name and name must be specified'')"
  by (simp_all add: OrganizationDataSource_Read_def WorkspaceDataSource_Read_def
      VCSDataSource_Read_def)

text \<open>
  C9 at the three data sources, each with a configuration that has every attribute of its
  schema and sets neither an id nor a name. No request goes to the client and the state
  stays null, as C9 says; the one error reported is "Value Conversion Error", from
  \<^verbatim>\<open>Config.Get\<close>, and not the error "Missing required parameter" of the filter test,
  which is never reached.
\<close>

theorem DataSource_Read_reports_conversion_error_for_missing_filter:
  "set (map fst (organization_config StringNull StringNull)) = set OrganizationDataSource_Schema
   \<and> Sent (OrganizationDataSource_Read lib_example (provider_answering 200 ''[]'')
        (organization_config StringNull StringNull)) = []
   \<and> State (OrganizationDataSource_Read lib_example (provider_answering 200 ''[]'')
        (organization_config StringNull StringNull)) = None
   \<and> map Summary (Diagnostics (OrganizationDataSource_Read lib_example
        (provider_answering 200 ''[]'') (organization_config StringNull StringNull)))
     = [''Value Conversion Error'']
   \<and> set (map fst (workspace_config StringNull (StringValue ''test-org'') StringNull))
     = set WorkspaceDataSource_Schema
   \<and> Sent (WorkspaceDataSource_Read lib_example (provider_answering 200 ''[]'')
        (workspace_config StringNull (StringValue ''test-org'') StringNull)) = []
   \<and> State (WorkspaceDataSource_Read lib_example (provider_answering 200 ''[]'')
        (workspace_config StringNull (StringValue ''test-org'') StringNull)) = None
   \<and> map Summary (Diagnostics (WorkspaceDataSource_Read lib_example
        (provider_answering 200 ''[]'')
        (workspace_config StringNull (StringValue ''test-org'') StringNull)))
     = [''Value Conversion Error'']
   \<and> set (map fst (vcs_config StringNull StringNull (StringValue ''test-vcs'')))
     = set VCSDataSource_Schema
   \<and> Sent (VCSDataSource_Read lib_example (provider_answering 200 ''[]'')
        (vcs_config StringNull StringNull (StringValue ''test-vcs''))) = []
   \<and> State (VCSDataSource_Read lib_example (provider_answering 200 ''[]'')
        (vcs_config StringNull StringNull (StringValue ''test-vcs''))) = None
   \<and> map Summary (Diagnostics (VCSDataSource_Read lib_example (provider_answering 200 ''[]'')
        (vcs_config StringNull StringNull (StringValue ''test-vcs''))))
     = [''Value Conversion Error'']"
proof -
  have org: "set (map fst (organization_config StringNull StringNull))
             = set OrganizationDataSource_Schema"
    by (simp add: organization_config_def OrganizationDataSource_Schema_def)
  have ws: "set (map fst (workspace_config StringNull (StringValue ''test-org'') StringNull))
            = set WorkspaceDataSource_Schema"
    by (simp add: workspace_config_def WorkspaceDataSource_Schema_def)
  have vcs: "set (map fst (vcs_config StringNull StringNull (StringValue ''test-vcs'')))
             = set VCSDataSource_Schema"
    by (simp add: vcs_config_def VCSDataSource_Schema_def)
  show ?thesis
    by (simp only: org ws vcs OrganizationDataSource_Read_stops_at_Get [OF org]
        WorkspaceDataSource_Read_stops_at_Get [OF ws] VCSDataSource_Read_stops_at_Get [OF vcs])
      (simp add: failed_def)
qed

section \<open>The import key\<close>

lemma Split_length: "length (Split sep s) = Suc (count_list s sep)"
  by (induction s) (auto split: list.splits)

lemma Split_not_two:
  assumes "count_list ID sep \<noteq> 1"
  shows "(case Split sep ID of [a, b] \<Rightarrow> f a b | _ \<Rightarrow> g) = g"
proof -
  have "length (Split sep ID) \<noteq> 2"
    using assms by (simp add: Split_length)
  then show ?thesis
    by (auto split: list.splits)
qed

text \<open>
  C7. The segments of an import key are one more than its colons. For every key that does
  not have exactly one colon, \<^verbatim>\<open>ImportState\<close> of the workspace resource and of the VCS
  resource reports the error "Invalid import ID format", hands no request to the client and
  leaves the null state.
\<close>

theorem ImportState_rejects_other_segment_counts:
  assumes "count_list ID (CHR '':'') \<noteq> 1"
  shows "Sent (WorkspaceResource_ImportState lib p ID) = []
         \<and> State (WorkspaceResource_ImportState lib p ID) = None
         \<and> map Summary (Diagnostics (WorkspaceResource_ImportState lib p ID))
           = [''Invalid import ID format'']
         \<and> Sent (VCSResource_ImportState lib p ID) = []
         \<and> State (VCSResource_ImportState lib p ID) = None
         \<and> map Summary (Diagnostics (VCSResource_ImportState lib p ID))
           = [''Invalid import ID format'']"
  unfolding WorkspaceResource_ImportState_def VCSResource_ImportState_def
  by (simp add: Split_not_two [OF assms] failed_def)

text \<open>The theorem at the key of four segments.\<close>

theorem ImportState_rejects_other_segment_counts_witness:
  "count_list ''a:b:c:d'' (CHR '':'') \<noteq> 1
   \<and> Sent (WorkspaceResource_ImportState lib_example (provider_answering 200 ''[]'') ''a:b:c:d'')
     = []
   \<and> HasError (WorkspaceResource_ImportState lib_example (provider_answering 200 ''[]'')
        ''a:b:c:d'')
   \<and> Sent (VCSResource_ImportState lib_example (provider_answering 200 ''[]'') ''a:b:c:d'') = []
   \<and> HasError (VCSResource_ImportState lib_example (provider_answering 200 ''[]'') ''a:b:c:d'')"
proof -
  have h: "count_list ''a:b:c:d'' (CHR '':'') \<noteq> 1"
    by simp
  show ?thesis
    using h ImportState_rejects_other_segment_counts
      [OF h, of lib_example "provider_answering 200 ''[]''"]
    by (auto simp: HasError_def)
qed

section \<open>Import and resolution by name\<close>

lemma Split_no_sep: "sep \<notin> set s \<Longrightarrow> Split sep s = [s]"
  by (induction s) auto

lemma Split_two:
  "sep \<notin> set a \<Longrightarrow> sep \<notin> set b \<Longrightarrow> Split sep (a @ sep # b) = [a, b]"
  by (induction a) (auto simp: Split_no_sep)

text \<open>
  What \<^verbatim>\<open>ImportState\<close> of a workspace stores once the list is on the table: the id of
  the first workspace of the wanted name, and nothing when there is none.
\<close>

lemma WorkspaceResource_ImportState_first_match:
  assumes "Split (CHR '':'') ID = [org, name]"
    and "received p (WorkspaceResource_ImportState lib p ID) = Some httpResp"
    and "StatusCode httpResp = 200"
    and "Body httpResp = Inr respBody"
    and "Unmarshal_Workspaces lib respBody = Inr workspaces"
  shows "map_option ws_ID (State (WorkspaceResource_ImportState lib p ID))
         = map_option (\<lambda>w. StringValue (wsapi_ID w)) (find (\<lambda>w. wsapi_Name w = name) workspaces)"
  using assms
  by (auto simp: WorkspaceResource_ImportState_def run_defs split: option.splits sum.splits)

text \<open>
  The scan of the data source is the same scan, where it is reached: that takes a
  configuration that \<^verbatim>\<open>Config.Get\<close> converts into the filter.
\<close>

lemma WorkspaceDataSource_Read_first_match:
  assumes "Get_WorkspaceDataSourceFilterModel config = Inr f"
    and "IsNull (wsf_ID f)" and "\<not> IsNull (wsf_OrganizationName f)"
    and "\<not> IsNull (wsf_Name f)"
    and "received p (WorkspaceDataSource_Read lib p config) = Some httpResp"
    and "StatusCode httpResp = 200"
    and "Body httpResp = Inr respBody"
    and "Unmarshal_Workspaces lib respBody = Inr workspaces"
  shows "map_option wsds_ID (State (WorkspaceDataSource_Read lib p config))
         = map_option (\<lambda>w. StringValue (wsapi_ID w))
             (find (\<lambda>w. wsapi_Name w = ValueString (wsf_Name f)) workspaces)"
  using assms
  by (auto simp: WorkspaceDataSource_Read_def WorkspaceDataSource_map_def run_defs
      split: option.splits sum.splits)

text \<open>
  C8 at the organization \<open>test-org\<close> and the name \<open>test-workspace\<close>, with a list endpoint
  that returns three workspaces, the second and the third of that name. The import with the
  key \<open>test-org:test-workspace\<close> stores the id of the second, the first match. The data
  source, configured with that organization and that name and every other attribute of its
  schema null, stops at \<^verbatim>\<open>Config.Get\<close>: it reports "Value Conversion Error", hands no
  request to the client and stores no id.
\<close>

theorem Workspace_import_resolves_where_data_source_stops:
  "map_option ws_ID
     (State (WorkspaceResource_ImportState
        (lib_workspaces [workspace_response ''ws-0'' ''other-workspace'',
                         workspace_response ''ws-1'' ''test-workspace'',
                         workspace_response ''ws-2'' ''test-workspace''])
        (provider_answering 200 ''[]'') ''test-org:test-workspace''))
     = Some (StringValue ''ws-1'')
   \<and> set (map fst (workspace_config StringNull (StringValue ''test-org'')
        (StringValue ''test-workspace''))) = set WorkspaceDataSource_Schema
   \<and> State (WorkspaceDataSource_Read
        (lib_workspaces [workspace_response ''ws-0'' ''other-workspace'',
                         workspace_response ''ws-1'' ''test-workspace'',
                         workspace_response ''ws-2'' ''test-workspace''])
        (provider_answering 200 ''[]'')
        (workspace_config StringNull (StringValue ''test-org'')
           (StringValue ''test-workspace''))) = None
   \<and> Sent (WorkspaceDataSource_Read
        (lib_workspaces [workspace_response ''ws-0'' ''other-workspace'',
                         workspace_response ''ws-1'' ''test-workspace'',
                         workspace_response ''ws-2'' ''test-workspace''])
        (provider_answering 200 ''[]'')
        (workspace_config StringNull (StringValue ''test-org'')
           (StringValue ''test-workspace''))) = []
   \<and> map Summary (Diagnostics (WorkspaceDataSource_Read
        (lib_workspaces [workspace_response ''ws-0'' ''other-workspace'',
                         workspace_response ''ws-1'' ''test-workspace'',
                         workspace_response ''ws-2'' ''test-workspace''])
        (provider_answering 200 ''[]'')
        (workspace_config StringNull (StringValue ''test-org'')
           (StringValue ''test-workspace''))))
     = [''Value Conversion Error'']"
proof -
  let ?lib = "lib_workspaces [workspace_response ''ws-0'' ''other-workspace'',
                              workspace_response ''ws-1'' ''test-workspace'',
                              workspace_response ''ws-2'' ''test-workspace'']"
  let ?p = "provider_answering 200 ''[]''"
  have imported: "map_option ws_ID
                    (State (WorkspaceResource_ImportState ?lib ?p ''test-org:test-workspace''))
                  = Some (StringValue ''ws-1'')"
    by (simp add: WorkspaceResource_ImportState_def run_defs example_defs
        workspace_response_def)
  have schema: "set (map fst (workspace_config StringNull (StringValue ''test-org'')
                  (StringValue ''test-workspace''))) = set WorkspaceDataSource_Schema"
    by (simp add: workspace_config_def WorkspaceDataSource_Schema_def)
  show ?thesis
    by (simp only: imported schema WorkspaceDataSource_Read_stops_at_Get [OF schema])
      (simp add: failed_def)
qed

section \<open>Import of a VCS connection\<close>



section \<open>Read and the fields that the response does not carry\<close>

text \<open>
  C2, as the code has it. A successful \<^verbatim>\<open>Read\<close> of a VCS connection keeps the client
  secret and the organization name of the state and takes every other field from the
  response. A successful \<^verbatim>\<open>Read\<close> of a variable keeps the organization name only: the
  value is taken from the response like the other fields.
\<close>

theorem Read_keeps_client_secret_and_takes_value:
  "(received p (VCSResource_Read lib p vcs) = Some httpResp \<and> StatusCode httpResp = 200
      \<and> Body httpResp = Inr respBody \<and> Unmarshal_VCS lib respBody = Inr v
      \<longrightarrow> Diagnostics (VCSResource_Read lib p vcs) = []
          \<and> State (VCSResource_Read lib p vcs)
            = Some \<lparr>vcs_ID = StringValue (vcsapi_ID v),
                    vcs_OrganizationName = vcs_OrganizationName vcs,
                    vcs_Name = StringValue (vcsapi_Name v),
                    vcs_VcsType = StringValue (vcsapi_VcsType v),
                    vcs_URL = StringValue (vcsapi_URL v),
                    vcs_ClientId = StringValue (vcsapi_ClientId v),
                    vcs_ClientSecret = vcs_ClientSecret vcs,
                    vcs_Description = StringValue (vcsapi_Description v),
                    vcs_CreatedAt = StringValue (Format_RFC3339 (vcsapi_CreatedAt v)),
                    vcs_UpdatedAt = StringValue (Format_RFC3339 (vcsapi_UpdatedAt v))\<rparr>)
   \<and> (received p (VariableResource_Read lib p var) = Some httpResp \<and> StatusCode httpResp = 200
      \<and> Body httpResp = Inr respBody \<and> Unmarshal_Variable lib respBody = Inr w
      \<longrightarrow> Diagnostics (VariableResource_Read lib p var) = []
          \<and> State (VariableResource_Read lib p var)
            = Some \<lparr>var_ID = StringValue (varapi_ID w),
                    var_OrganizationName = var_OrganizationName var,
                    var_Key = StringValue (varapi_Key w),
                    var_Value = StringValue (varapi_Value w),
                    var_Description = StringValue (varapi_Description w),
                    var_Category = StringValue (varapi_Category w),
                    var_Sensitive = BoolValue (varapi_Sensitive w),
                    var_HCL = BoolValue (varapi_HCL w),
                    var_CreatedAt = StringValue (Format_RFC3339 (varapi_CreatedAt w)),
                    var_UpdatedAt = StringValue (Format_RFC3339 (varapi_UpdatedAt w))\<rparr>)"
proof (intro conjI impI)
  assume "received p (VCSResource_Read lib p vcs) = Some httpResp \<and> StatusCode httpResp = 200
          \<and> Body httpResp = Inr respBody \<and> Unmarshal_VCS lib respBody = Inr v"
  then show "Diagnostics (VCSResource_Read lib p vcs) = []"
    and "State (VCSResource_Read lib p vcs)
            = Some \<lparr>vcs_ID = StringValue (vcsapi_ID v),
                    vcs_OrganizationName = vcs_OrganizationName vcs,
                    vcs_Name = StringValue (vcsapi_Name v),
                    vcs_VcsType = StringValue (vcsapi_VcsType v),
                    vcs_URL = StringValue (vcsapi_URL v),
                    vcs_ClientId = StringValue (vcsapi_ClientId v),
                    vcs_ClientSecret = vcs_ClientSecret vcs,
                    vcs_Description = StringValue (vcsapi_Description v),
                    vcs_CreatedAt = StringValue (Format_RFC3339 (vcsapi_CreatedAt v)),
                    vcs_UpdatedAt = StringValue (Format_RFC3339 (vcsapi_UpdatedAt v))\<rparr>"
    by (auto simp: VCSResource_Read_def VCS_set_from_response_def run_defs
        split: option.splits sum.splits)
next
  assume "received p (VariableResource_Read lib p var) = Some httpResp
          \<and> StatusCode httpResp = 200
          \<and> Body httpResp = Inr respBody \<and> Unmarshal_Variable lib respBody = Inr w"
  then show "Diagnostics (VariableResource_Read lib p var) = []"
    and "State (VariableResource_Read lib p var)
            = Some \<lparr>var_ID = StringValue (varapi_ID w),
                    var_OrganizationName = var_OrganizationName var,
                    var_Key = StringValue (varapi_Key w),
                    var_Value = StringValue (varapi_Value w),
                    var_Description = StringValue (varapi_Description w),
                    var_Category = StringValue (varapi_Category w),
                    var_Sensitive = BoolValue (varapi_Sensitive w),
                    var_HCL = BoolValue (varapi_HCL w),
                    var_CreatedAt = StringValue (Format_RFC3339 (varapi_CreatedAt w)),
                    var_UpdatedAt = StringValue (Format_RFC3339 (varapi_UpdatedAt w))\<rparr>"
    by (auto simp: VariableResource_Read_def Variable_set_from_response_def run_defs
        split: option.splits sum.splits)
qed

text \<open>
  The theorem at a server that answers 200 and a library that decodes the body to a renamed
  VCS connection, and to a variable with another value: the client secret in the state stays
  what it was, the name and the value become those of the response.
\<close>

theorem Read_keeps_client_secret_and_takes_value_witness:
  "received (provider_answering 200 ''{}'')
       (VCSResource_Read
          ((lib_vcs (vcs_response ''5f560f5e'' ''renamed-vcs''))
             \<lparr>Unmarshal_Variable := (\<lambda>b. Inr (variable_response ''server-value''))\<rparr>)
          (provider_answering 200 ''{}'') vcs_example)
     = Some \<lparr>StatusCode = 200, Body = Inr ''{}''\<rparr>
   \<and> received (provider_answering 200 ''{}'')
       (VariableResource_Read
          ((lib_vcs (vcs_response ''5f560f5e'' ''renamed-vcs''))
             \<lparr>Unmarshal_Variable := (\<lambda>b. Inr (variable_response ''server-value''))\<rparr>)
          (provider_answering 200 ''{}'') var_example)
     = Some \<lparr>StatusCode = 200, Body = Inr ''{}''\<rparr>
   \<and> map_option vcs_ClientSecret
        (State (VCSResource_Read
           ((lib_vcs (vcs_response ''5f560f5e'' ''renamed-vcs''))
              \<lparr>Unmarshal_Variable := (\<lambda>b. Inr (variable_response ''server-value''))\<rparr>)
           (provider_answering 200 ''{}'') vcs_example))
     = Some (StringValue ''test-client-secret'')
   \<and> map_option vcs_Name
        (State (VCSResource_Read
           ((lib_vcs (vcs_response ''5f560f5e'' ''renamed-vcs''))
              \<lparr>Unmarshal_Variable := (\<lambda>b. Inr (variable_response ''server-value''))\<rparr>)
           (provider_answering 200 ''{}'') vcs_example))
     = Some (StringValue ''renamed-vcs'')
   \<and> map_option var_Value
        (State (VariableResource_Read
           ((lib_vcs (vcs_response ''5f560f5e'' ''renamed-vcs''))
              \<lparr>Unmarshal_Variable := (\<lambda>b. Inr (variable_response ''server-value''))\<rparr>)
           (provider_answering 200 ''{}'') var_example))
     = Some (StringValue ''server-value'')"
proof -
  let ?lib = "(lib_vcs (vcs_response ''5f560f5e'' ''renamed-vcs''))
                \<lparr>Unmarshal_Variable := (\<lambda>b. Inr (variable_response ''server-value''))\<rparr>"
  let ?p = "provider_answering 200 ''{}''"
  let ?resp = "\<lparr>StatusCode = 200, Body = Inr ''{}''\<rparr>"
  have vcs: "received ?p (VCSResource_Read ?lib ?p vcs_example) = Some ?resp"
    by (simp add: VCSResource_Read_def run_defs example_defs)
  have var: "received ?p (VariableResource_Read ?lib ?p var_example) = Some ?resp"
    by (simp add: VariableResource_Read_def run_defs example_defs)
  have decoded: "Unmarshal_VCS ?lib ''{}'' = Inr (vcs_response ''5f560f5e'' ''renamed-vcs'')"
    "Unmarshal_Variable ?lib ''{}'' = Inr (variable_response ''server-value'')"
    by (simp_all add: example_defs)
  show ?thesis
    using vcs var decoded
      Read_keeps_client_secret_and_takes_value
        [of ?p ?lib vcs_example ?resp "''{}''" "vcs_response ''5f560f5e'' ''renamed-vcs''"
            var_example "variable_response ''server-value''"]
    by (simp add: vcs_example_def vcs_response_def variable_response_def)
qed

text \<open>
  C2 as it is written fails for the variable. The state holds the value \<open>test-value\<close> of a
  sensitive variable; the body of the response has no value, so the decoded struct holds
  the empty string; after the \<^verbatim>\<open>Read\<close>, which succeeds, the state holds the empty
  string.
\<close>

theorem Variable_Read_overwrites_value:
  "var_Value var_example = StringValue ''test-value''
   \<and> varapi_Value (variable_response []) = []
   \<and> Diagnostics (VariableResource_Read (lib_variable (variable_response []))
        (provider_answering 200 ''{}'') var_example) = []
   \<and> map_option var_Value
        (State (VariableResource_Read (lib_variable (variable_response []))
           (provider_answering 200 ''{}'') var_example))
     = Some (StringValue [])"
  by (simp add: VariableResource_Read_def Variable_set_from_response_def run_defs example_defs
      var_example_def variable_response_def)

section \<open>The booleans of an update\<close>

text \<open>
  C3 at the organization. The state has agents enabled. A plan that turns them off and a
  plan that changes nothing make \<^verbatim>\<open>Update\<close> send the same payload, the empty object:
  the field is a plain boolean tagged \<^verbatim>\<open>omitempty\<close>, and \<^verbatim>\<open>false\<close> is left out.
\<close>

theorem Organization_Update_false_is_sent_as_unchanged:
  "org_AgentsEnabled org_example = BoolValue True
   \<and> map Payload (Sent (OrganizationResource_Update lib_example (provider_answering 200 ''{}'')
        org_example (org_example\<lparr>org_AgentsEnabled := BoolValue False\<rparr>)))
     = [Some []]
   \<and> map Payload (Sent (OrganizationResource_Update lib_example (provider_answering 200 ''{}'')
        org_example org_example))
     = [Some []]"
  by (simp add: OrganizationResource_Update_def OrganizationResource_updateReq_def
      Marshal_OrganizationUpdateRequest_def omitempty_string_def omitempty_bool_def
      run_defs example_defs org_example_def)

text \<open>
  The variable, whose update request holds pointers: the same change is sent, and differs
  from the payload of no change.
\<close>

lemma Variable_Update_false_is_sent:
  "map Payload (Sent (VariableResource_Update lib_example (provider_answering 200 ''{}'')
        var_example (var_example\<lparr>var_Sensitive := BoolValue False\<rparr>)))
     = [Some [(''sensitive'', JBool False)]]
   \<and> map Payload (Sent (VariableResource_Update lib_example (provider_answering 200 ''{}'')
        var_example var_example))
     = [Some []]"
  by (simp add: VariableResource_Update_def VariableResource_updateReq_def
      Marshal_VariableUpdateRequest_def omitempty_string_def omitempty_bool_ptr_def
      run_defs example_defs var_example_def)

section \<open>Create followed by Read\<close>

text \<open>
  For the workspace, the VCS connection and the variable, \<^verbatim>\<open>Create\<close> and \<^verbatim>\<open>Read\<close>
  make the same assignments from the response: a \<^verbatim>\<open>Read\<close> that decodes the record
  that \<^verbatim>\<open>Create\<close> decoded leaves the state of \<^verbatim>\<open>Create\<close> as it is.
\<close>

lemma WorkspaceResource_Create_then_Read:
  assumes "received p (WorkspaceResource_Create lib p plan) = Some created"
    and "StatusCode created = 201" and "Body created = Inr b1"
    and "Unmarshal_Workspace lib b1 = Inr w"
    and "State (WorkspaceResource_Create lib p plan) = Some s"
    and "received p (WorkspaceResource_Read lib p s) = Some httpResp"
    and "StatusCode httpResp = 200" and "Body httpResp = Inr b2"
    and "Unmarshal_Workspace lib b2 = Inr w"
  shows "State (WorkspaceResource_Read lib p s) = Some s"
proof -
  have s: "s = Workspace_set_from_response w plan"
    using assms(1-5)
    by (auto simp: WorkspaceResource_Create_def run_defs split: option.splits sum.splits if_splits)
  have "State (WorkspaceResource_Read lib p s) = Some (Workspace_set_from_response w s)"
    using assms(6-9)
    by (auto simp: WorkspaceResource_Read_def run_defs split: option.splits sum.splits if_splits)
  then show ?thesis
    by (simp add: s Workspace_set_from_response_def)
qed

lemma VCSResource_Create_then_Read:
  assumes "received p (VCSResource_Create lib p plan) = Some created"
    and "StatusCode created = 201" and "Body created = Inr b1"
    and "Unmarshal_VCS lib b1 = Inr v"
    and "State (VCSResource_Create lib p plan) = Some s"
    and "received p (VCSResource_Read lib p s) = Some httpResp"
    and "StatusCode httpResp = 200" and "Body httpResp = Inr b2"
    and "Unmarshal_VCS lib b2 = Inr v"
  shows "State (VCSResource_Read lib p s) = Some s"
proof -
  have s: "s = VCS_set_from_response v plan"
    using assms(1-5)
    by (auto simp: VCSResource_Create_def run_defs split: option.splits sum.splits if_splits)
  have "State (VCSResource_Read lib p s) = Some (VCS_set_from_response v s)"
    using assms(6-9)
    by (auto simp: VCSResource_Read_def run_defs split: option.splits sum.splits if_splits)
  then show ?thesis
    by (simp add: s VCS_set_from_response_def)
qed

lemma VariableResource_Create_then_Read:
  assumes "received p (VariableResource_Create lib p plan) = Some created"
    and "StatusCode created = 201" and "Body created = Inr b1"
    and "Unmarshal_Variable lib b1 = Inr w"
    and "State (VariableResource_Create lib p plan) = Some s"
    and "received p (VariableResource_Read lib p s) = Some httpResp"
    and "StatusCode httpResp = 200" and "Body httpResp = Inr b2"
    and "Unmarshal_Variable lib b2 = Inr w"
  shows "State (VariableResource_Read lib p s) = Some s"
proof -
  have s: "s = Variable_set_from_response w plan"
    using assms(1-5)
    by (auto simp: VariableResource_Create_def run_defs split: option.splits sum.splits if_splits)
  have "State (VariableResource_Read lib p s) = Some (Variable_set_from_response w s)"
    using assms(6-9)
    by (auto simp: VariableResource_Read_def run_defs split: option.splits sum.splits if_splits)
  then show ?thesis
    by (simp add: s Variable_set_from_response_def)
qed

text \<open>
  C4 at the organization. The plan asks for the organization \<open>test-org\<close> in mode
  \<open>remote\<close>; the server answers the \<^verbatim>\<open>Create\<close> with 201 and the \<^verbatim>\<open>Read\<close> with 200,
  both times with the same record, whose execution mode is \<open>Remote\<close>. \<^verbatim>\<open>Create\<close> stores
  \<open>remote\<close>, the lowered string; the \<^verbatim>\<open>Read\<close> of that state stores \<open>Remote\<close>.
\<close>

theorem Organization_Create_then_Read_changes_execution_mode:
  "map_option org_ExecutionMode
     (State (OrganizationResource_Create (lib_organization (organization_response ''Remote''))
        (provider_creating ''{}'') org_example))
     = Some (StringValue ''remote'')
   \<and> map_option org_ExecutionMode
       (Option.bind
          (State (OrganizationResource_Create
             (lib_organization (organization_response ''Remote''))
             (provider_creating ''{}'') org_example))
          (\<lambda>s. State (OrganizationResource_Read
             (lib_organization (organization_response ''Remote''))
             (provider_creating ''{}'') s)))
     = Some (StringValue ''Remote'')"
  by (simp add: OrganizationResource_Create_def OrganizationResource_Read_def
      Marshal_OrganizationUpdateRequest_def run_defs example_defs org_example_def
      organization_response_def ToLower_def ToLower_char_def)

section \<open>The payload of an update\<close>


text \<open>The payload of the request that \<^verbatim>\<open>Update\<close> sends is the marshalled update request.\<close>

lemma Update_sends_updateReq:
  "map Payload (Sent (OrganizationResource_Update lib p org_state org_plan))
     \<in> {[], [Some (Marshal_OrganizationUpdateRequest
                     (OrganizationResource_updateReq org_state org_plan))]}"
  "map Payload (Sent (WorkspaceResource_Update lib p ws_state ws_plan))
     \<in> {[], [Some (Marshal_WorkspaceUpdateRequest
                     (WorkspaceResource_updateReq ws_state ws_plan))]}"
  "map Payload (Sent (VCSResource_Update lib p vcs_state vcs_plan))
     \<in> {[], [Some (Marshal_VCSUpdateRequest (VCSResource_updateReq vcs_state vcs_plan))]}"
  "map Payload (Sent (VariableResource_Update lib p var_state var_plan))
     \<in> {[], [Some (Marshal_VariableUpdateRequest
                     (VariableResource_updateReq var_state var_plan))]}"
  by (simp_all add: OrganizationResource_Update_def WorkspaceResource_Update_def
      VCSResource_Update_def VariableResource_Update_def NewRequest_def SetHeader_def
      failed_def Let_def split: option.splits sum.splits)









end
